theory Spec2Isabelle
  imports Main "HOL-Library.Word" "HOL-Library.Sublist"
begin

section \<open>JavaScript strings\<close>

text \<open>
  A JavaScript string is a finite sequence of 16-bit code units. String literals of the
  source are ASCII; \<open>str\<close> turns an Isabelle literal into the code units of the same text.
\<close>

type_synonym code_unit = "16 word"
type_synonym js_string = "code_unit list"

definition str :: "string \<Rightarrow> js_string" where
  "str s = map (\<lambda>c. of_nat (of_char c)) s"

text \<open>\<^verbatim>\<open>s.startsWith(t)\<close>: the first \<open>length t\<close> code units of \<open>s\<close> are \<open>t\<close>.\<close>

definition startsWith :: "js_string \<Rightarrow> js_string \<Rightarrow> bool" where
  "startsWith s t = (take (length t) s = t)"

text \<open>\<^verbatim>\<open>s.includes(t)\<close>: \<open>t\<close> occurs in \<open>s\<close> at some position, searched from the left.\<close>

fun js_includes :: "js_string \<Rightarrow> js_string \<Rightarrow> bool" where
  "js_includes [] t = (t = [])"
| "js_includes (c # s) t = (startsWith (c # s) t \<or> js_includes s t)"

text \<open>
  What the code reads from its host: the two environment variables, the clock
  (\<^verbatim>\<open>new Date().toISOString()\<close>), and the Unicode case tables behind
  \<^verbatim>\<open>String.prototype.toLowerCase\<close>, which are no part of the repository.
\<close>

record runtime =
  NODE_ENV :: "js_string option"
  NEXT_PUBLIC_API_URL :: "js_string option"
  now_iso :: js_string
  unicode_lower :: "js_string \<Rightarrow> js_string"

definition ascii_lower :: "code_unit \<Rightarrow> code_unit" where
  "ascii_lower c = (if 0x41 \<le> c \<and> c \<le> 0x5A then c + 0x20 else c)"

definition is_ascii :: "code_unit \<Rightarrow> bool" where
  "is_ascii c = (c < 0x80)"

text \<open>
  \<^verbatim>\<open>s.toLowerCase()\<close>. On a string of ASCII code units the Unicode mapping changes
  \<open>A\<close> to \<open>Z\<close> only; any other string is left to the runtime's tables.
\<close>

definition toLowerCase :: "runtime \<Rightarrow> js_string \<Rightarrow> js_string" where
  "toLowerCase rt s = (if list_all is_ascii s then map ascii_lower s else unicode_lower rt s)"

text \<open>\<^verbatim>\<open>`${x}`\<close> for a value that may be undefined.\<close>

definition template :: "js_string option \<Rightarrow> js_string" where
  "template x = (case x of None \<Rightarrow> str ''undefined'' | Some s \<Rightarrow> s)"

section \<open>JSON values and \<^verbatim>\<open>JSON.parse\<close>\<close>

text \<open>
  A number keeps the literal's sign, decimal mantissa and decimal exponent: its
  mathematical value is \<open>\<plusminus> m * 10 ^ e\<close>. The members of an object are kept in source order.
\<close>

datatype json =
    JNull
  | JBool bool
  | JNumber bool nat int
  | JString js_string
  | JArray "json list"
  | JObject "(js_string \<times> json) list"

datatype error = SyntaxError | TypeError | Error js_string

definition is_ws :: "code_unit \<Rightarrow> bool" where
  "is_ws c = (c = 0x09 \<or> c = 0x0A \<or> c = 0x0D \<or> c = 0x20)"

definition skip_ws :: "js_string \<Rightarrow> js_string" where
  "skip_ws cs = dropWhile is_ws cs"

definition is_digit :: "code_unit \<Rightarrow> bool" where
  "is_digit c = (0x30 \<le> c \<and> c \<le> 0x39)"

definition digits_val :: "js_string \<Rightarrow> nat" where
  "digits_val ds = foldl (\<lambda>n d. 10 * n + (unat d - 48)) 0 ds"

definition hex_val :: "code_unit \<Rightarrow> nat option" where
  "hex_val c =
     (if 0x30 \<le> c \<and> c \<le> 0x39 then Some (unat c - 48)
      else if 0x41 \<le> c \<and> c \<le> 0x46 then Some (unat c - 55)
      else if 0x61 \<le> c \<and> c \<le> 0x66 then Some (unat c - 87)
      else None)"

definition hex4 :: "code_unit \<Rightarrow> code_unit \<Rightarrow> code_unit \<Rightarrow> code_unit \<Rightarrow> code_unit option" where
  "hex4 h1 h2 h3 h4 =
     (case (hex_val h1, hex_val h2, hex_val h3, hex_val h4) of
        (Some a, Some b, Some c, Some d) \<Rightarrow> Some (of_nat (4096 * a + 256 * b + 16 * c + d))
      | _ \<Rightarrow> None)"

text \<open>The single-character escapes: \<^verbatim>\<open>" / \ b f n r t\<close>.\<close>

definition escape :: "code_unit \<Rightarrow> code_unit option" where
  "escape e =
     (if e = 0x22 then Some 0x22
      else if e = 0x2F then Some 0x2F
      else if e = 0x5C then Some 0x5C
      else if e = 0x62 then Some 0x08
      else if e = 0x66 then Some 0x0C
      else if e = 0x6E then Some 0x0A
      else if e = 0x72 then Some 0x0D
      else if e = 0x74 then Some 0x09
      else None)"

text \<open>A string, read from behind its opening quote: the text and what follows the closing quote.\<close>

fun parse_string :: "js_string \<Rightarrow> (js_string \<times> js_string) option" where
  "parse_string [] = None"
| "parse_string (c # cs) =
     (if c = 0x22 then Some ([], cs)
      else if c = 0x5C then
        (case cs of
           [] \<Rightarrow> None
         | e # es \<Rightarrow>
            if e = 0x75 then
              (case es of
                 h1 # h2 # h3 # h4 # rest \<Rightarrow>
                   (case hex4 h1 h2 h3 h4 of
                      None \<Rightarrow> None
                    | Some u \<Rightarrow> map_option (apfst ((#) u)) (parse_string rest))
               | _ \<Rightarrow> None)
            else
              (case escape e of
                 None \<Rightarrow> None
               | Some u \<Rightarrow> map_option (apfst ((#) u)) (parse_string es)))
      else if c < 0x20 then None
      else map_option (apfst ((#) c)) (parse_string cs))"

text \<open>A number: \<^verbatim>\<open>-? (0 | [1-9][0-9]*) (. [0-9]+)? ([eE] [+-]? [0-9]+)?\<close>.\<close>

definition parse_int_part :: "js_string \<Rightarrow> (js_string \<times> js_string) option" where
  "parse_int_part cs =
     (case cs of
        [] \<Rightarrow> None
      | d # r \<Rightarrow>
         if d = 0x30 then Some ([d], r)
         else if is_digit d then Some (d # takeWhile is_digit r, dropWhile is_digit r)
         else None)"

definition parse_frac_part :: "js_string \<Rightarrow> (js_string \<times> js_string) option" where
  "parse_frac_part cs =
     (case cs of
        [] \<Rightarrow> Some ([], cs)
      | c # r \<Rightarrow>
         if c = 0x2E then
           (if takeWhile is_digit r = [] then None
            else Some (takeWhile is_digit r, dropWhile is_digit r))
         else Some ([], cs))"

definition parse_exp_digits :: "bool \<Rightarrow> js_string \<Rightarrow> (int \<times> js_string) option" where
  "parse_exp_digits neg cs =
     (if takeWhile is_digit cs = [] then None
      else Some ((if neg then - int (digits_val (takeWhile is_digit cs))
                  else int (digits_val (takeWhile is_digit cs))),
                 dropWhile is_digit cs))"

definition parse_exp_part :: "js_string \<Rightarrow> (int \<times> js_string) option" where
  "parse_exp_part cs =
     (case cs of
        [] \<Rightarrow> Some (0, cs)
      | c # r \<Rightarrow>
         if c = 0x65 \<or> c = 0x45 then
           (case r of
              [] \<Rightarrow> None
            | s # r' \<Rightarrow>
               if s = 0x2B then parse_exp_digits False r'
               else if s = 0x2D then parse_exp_digits True r'
               else parse_exp_digits False r)
         else Some (0, cs))"

definition parse_unsigned :: "bool \<Rightarrow> js_string \<Rightarrow> (json \<times> js_string) option" where
  "parse_unsigned neg cs =
     (case parse_int_part cs of
        None \<Rightarrow> None
      | Some (ip, cs1) \<Rightarrow>
         (case parse_frac_part cs1 of
            None \<Rightarrow> None
          | Some (fp, cs2) \<Rightarrow>
             (case parse_exp_part cs2 of
                None \<Rightarrow> None
              | Some (e, cs3) \<Rightarrow>
                 Some (JNumber neg (digits_val (ip @ fp)) (e - int (length fp)), cs3))))"

definition parse_number :: "js_string \<Rightarrow> (json \<times> js_string) option" where
  "parse_number cs =
     (case cs of
        [] \<Rightarrow> None
      | c # r \<Rightarrow> if c = 0x2D then parse_unsigned True r else parse_unsigned False cs)"

text \<open>
  A value, the elements of an array after its first bracket or a comma, and the members
  of an object likewise. Each returns what it read and the rest of the text. Every
  recursive call is on a shorter text; the tests \<open>length r < length cs\<close> say so where the
  rest comes out of an earlier call.
\<close>

function parse_value :: "js_string \<Rightarrow> (json \<times> js_string) option"
  and parse_elements :: "js_string \<Rightarrow> (json list \<times> js_string) option"
  and parse_members :: "js_string \<Rightarrow> ((js_string \<times> json) list \<times> js_string) option"
where
  "parse_value cs =
     (case skip_ws cs of
        [] \<Rightarrow> None
      | c # r \<Rightarrow>
         if c = 0x5B then
           (case skip_ws r of
              [] \<Rightarrow> None
            | c' # r' \<Rightarrow>
               if c' = 0x5D then Some (JArray [], r')
               else map_option (apfst JArray) (parse_elements r))
         else if c = 0x7B then
           (case skip_ws r of
              [] \<Rightarrow> None
            | c' # r' \<Rightarrow>
               if c' = 0x7D then Some (JObject [], r')
               else map_option (apfst JObject) (parse_members r))
         else if c = 0x22 then map_option (apfst JString) (parse_string r)
         else if startsWith (c # r) (str ''true'') then Some (JBool True, drop 3 r)
         else if startsWith (c # r) (str ''false'') then Some (JBool False, drop 4 r)
         else if startsWith (c # r) (str ''null'') then Some (JNull, drop 3 r)
         else parse_number (c # r))"
| "parse_elements cs =
     (case parse_value cs of
        None \<Rightarrow> None
      | Some (v, r) \<Rightarrow>
         (case skip_ws r of
            [] \<Rightarrow> None
          | c # r' \<Rightarrow>
             if c = 0x5D then Some ([v], r')
             else if c = 0x2C \<and> length r' < length cs
               then map_option (apfst ((#) v)) (parse_elements r')
             else None))"
| "parse_members cs =
     (case skip_ws cs of
        [] \<Rightarrow> None
      | q # r \<Rightarrow>
         if q = 0x22 then
           (case parse_string r of
              None \<Rightarrow> None
            | Some (k, r1) \<Rightarrow>
               (case skip_ws r1 of
                  [] \<Rightarrow> None
                | col # r2 \<Rightarrow>
                   if col = 0x3A \<and> length r2 < length cs then
                     (case parse_value r2 of
                        None \<Rightarrow> None
                      | Some (v, r3) \<Rightarrow>
                         (case skip_ws r3 of
                            [] \<Rightarrow> None
                          | c # r4 \<Rightarrow>
                             if c = 0x7D then Some ([(k, v)], r4)
                             else if c = 0x2C \<and> length r4 < length cs
                               then map_option (apfst ((#) (k, v))) (parse_members r4)
                             else None))
                   else None))
         else None)"
  by pat_completeness auto
termination
proof (relation "measure (\<lambda>x. case x of
          Inl cs \<Rightarrow> 2 * length cs
        | Inr (Inl cs) \<Rightarrow> 2 * length cs + 1
        | Inr (Inr cs) \<Rightarrow> 2 * length cs + 1)", goal_cases)
  case 1
  show ?case by simp
next
  case (2 cs c r)
  have "length (skip_ws cs) \<le> length cs"
    unfolding skip_ws_def by (rule length_dropWhile_le)
  with 2 show ?case by simp
next
  case (3 cs c r)
  have "length (skip_ws cs) \<le> length cs"
    unfolding skip_ws_def by (rule length_dropWhile_le)
  with 3 show ?case by simp
qed simp_all

text \<open>
  \<^verbatim>\<open>JSON.parse(text)\<close>: one value with white space around it and nothing else, or a
  SyntaxError.
\<close>

definition JSON_parse :: "js_string \<Rightarrow> error + json" where
  "JSON_parse text =
     (case parse_value text of
        None \<Rightarrow> Inl SyntaxError
      | Some (v, r) \<Rightarrow> if skip_ws r = [] then Inr v else Inl SyntaxError)"

text \<open>
  A number literal denotes the double nearest to its mathematical value, ties to even.
  That double is zero exactly when the value is at most \<open>2 ^ - 1075\<close>, half of the least
  positive double, in magnitude.
\<close>

definition number_is_zero :: "nat \<Rightarrow> int \<Rightarrow> bool" where
  "number_is_zero m e = (m = 0 \<or> (e < 0 \<and> m * 2 ^ 1075 \<le> 10 ^ nat (- e)))"

text \<open>\<^verbatim>\<open>!!v\<close> for a value that came out of \<^verbatim>\<open>JSON.parse\<close> or is \<^verbatim>\<open>null\<close>.\<close>

fun ToBoolean :: "json \<Rightarrow> bool" where
  "ToBoolean JNull = False"
| "ToBoolean (JBool b) = b"
| "ToBoolean (JNumber neg m e) = (\<not> number_is_zero m e)"
| "ToBoolean (JString s) = (s \<noteq> [])"
| "ToBoolean (JArray vs) = True"
| "ToBoolean (JObject ms) = True"

text \<open>
  \<^verbatim>\<open>user.role\<close> for a value that is not \<^verbatim>\<open>null\<close>: the last member named \<open>role\<close> of an
  object, and undefined (\<open>None\<close>) on an object without one and on every array, string,
  number and boolean, whose prototypes have no such property.
\<close>

fun role_of :: "json \<Rightarrow> json option" where
  "role_of (JObject ms) = map_of (rev ms) (str ''role'')"
| "role_of v = None"

section \<open>URLs and the form-urlencoded serializer\<close>

text \<open>
  The parts of a URL the code reads or writes. \<open>host\<close> carries the port when there is one;
  \<open>search\<close> is empty or starts with a question mark. The request's \<^verbatim>\<open>url\<close> and
  \<^verbatim>\<open>nextUrl\<close> are the same URL.
\<close>

record url =
  protocol :: js_string
  host :: js_string
  pathname :: js_string
  search :: js_string

definition href :: "url \<Rightarrow> js_string" where
  "href u = protocol u @ str ''//'' @ host u @ pathname u @ search u"

text \<open>\<^verbatim>\<open>new URL(path, base)\<close> for a path that starts with a slash and has no query.\<close>

definition new_URL :: "js_string \<Rightarrow> url \<Rightarrow> url" where
  "new_URL path base = base\<lparr>pathname := path, search := []\<rparr>"

text \<open>
  The scalar values of a string: a lead surrogate followed by a trail surrogate is one
  value, a surrogate on its own is replaced by U+FFFD.
\<close>

definition is_lead :: "code_unit \<Rightarrow> bool" where
  "is_lead c = (0xD800 \<le> c \<and> c \<le> 0xDBFF)"

definition is_trail :: "code_unit \<Rightarrow> bool" where
  "is_trail c = (0xDC00 \<le> c \<and> c \<le> 0xDFFF)"

fun scalar_values :: "js_string \<Rightarrow> nat list" where
  "scalar_values [] = []"
| "scalar_values [c] = [if is_lead c \<or> is_trail c then 0xFFFD else unat c]"
| "scalar_values (c # d # cs) =
     (if is_lead c \<and> is_trail d
        then (0x10000 + (unat c - 0xD800) * 0x400 + (unat d - 0xDC00)) # scalar_values cs
      else if is_lead c \<or> is_trail c then 0xFFFD # scalar_values (d # cs)
      else unat c # scalar_values (d # cs))"

definition utf8 :: "nat \<Rightarrow> nat list" where
  "utf8 cp =
     (if cp < 0x80 then [cp]
      else if cp < 0x800 then [0xC0 + cp div 64, 0x80 + cp mod 64]
      else if cp < 0x10000 then [0xE0 + cp div 4096, 0x80 + cp div 64 mod 64, 0x80 + cp mod 64]
      else [0xF0 + cp div 262144, 0x80 + cp div 4096 mod 64, 0x80 + cp div 64 mod 64,
            0x80 + cp mod 64])"

definition hex_digit :: "nat \<Rightarrow> code_unit" where
  "hex_digit n = (if n < 10 then of_nat (48 + n) else of_nat (55 + n))"

text \<open>
  One byte of a name or value in a query: a space becomes a plus sign; letters, digits
  and \<^verbatim>\<open>* - . _\<close> stay; every other byte is a percent sign and two upper-case hex digits.
\<close>

definition urlencode_byte :: "nat \<Rightarrow> js_string" where
  "urlencode_byte b =
     (if b = 0x20 then [0x2B]
      else if b = 0x2A \<or> b = 0x2D \<or> b = 0x2E \<or> b = 0x5F
              \<or> (0x30 \<le> b \<and> b \<le> 0x39) \<or> (0x41 \<le> b \<and> b \<le> 0x5A) \<or> (0x61 \<le> b \<and> b \<le> 0x7A)
        then [of_nat b]
      else [0x25, hex_digit (b div 16), hex_digit (b mod 16)])"

definition urlencode :: "js_string \<Rightarrow> js_string" where
  "urlencode s = concat (map urlencode_byte (concat (map utf8 (scalar_values s))))"

fun urlencoded_serialize :: "(js_string \<times> js_string) list \<Rightarrow> js_string" where
  "urlencoded_serialize [] = []"
| "urlencoded_serialize [(n, v)] = urlencode n @ [0x3D] @ urlencode v"
| "urlencoded_serialize ((n, v) # p # ps) =
     urlencode n @ [0x3D] @ urlencode v @ [0x26] @ urlencoded_serialize (p # ps)"

text \<open>\<^verbatim>\<open>searchParams.set(name, value)\<close> on a list of parameters: the first one of that
  name gets the value and the later ones go; without one, the pair is added at the end.\<close>

fun params_set :: "js_string \<Rightarrow> js_string \<Rightarrow> (js_string \<times> js_string) list \<Rightarrow> (js_string \<times> js_string) list" where
  "params_set n v [] = [(n, v)]"
| "params_set n v (p # ps) =
     (if fst p = n then (n, v) # filter (\<lambda>q. fst q \<noteq> n) ps else p # params_set n v ps)"

text \<open>
  \<^verbatim>\<open>u.searchParams.set(name, value)\<close> on a URL whose query is empty, as that of
  \<^verbatim>\<open>new URL('/login', base)\<close> is: the URL's query becomes the serialized list.
\<close>

definition searchParams_set :: "js_string \<Rightarrow> js_string \<Rightarrow> url \<Rightarrow> url" where
  "searchParams_set n v u = u\<lparr>search := [0x3F] @ urlencoded_serialize (params_set n v [])\<rparr>"

section \<open>Requests and responses\<close>

text \<open>
  \<open>cookies\<close> is the request's cookie map, from a name to the value of that cookie.
\<close>

record request =
  nextUrl :: url
  "method" :: js_string
  ip :: "js_string option"
  cookies :: "js_string \<rightharpoonup> js_string"
  req_headers :: "(js_string \<times> js_string) list"

text \<open>
  What \<^verbatim>\<open>NextResponse.redirect\<close> was given: a string or a URL object.
\<close>

datatype redirect_arg = Href js_string | UrlObject url

text \<open>
  A response of the middleware: a redirect to a target, or the pass-through of
  \<^verbatim>\<open>NextResponse.next()\<close> when \<open>redirect\<close> is \<open>None\<close>; and the headers the code has set on it.
\<close>

record response =
  redirect :: "redirect_arg option"
  headers :: "(js_string \<times> js_string) list"

definition NextResponse_next :: response where
  "NextResponse_next = \<lparr>redirect = None, headers = []\<rparr>"

definition NextResponse_redirect :: "redirect_arg \<Rightarrow> response" where
  "NextResponse_redirect target = \<lparr>redirect = Some target, headers = []\<rparr>"

text \<open>\<^verbatim>\<open>headers.set(name, value)\<close>: replaces the header of that name or adds it.\<close>

fun set_header :: "js_string \<Rightarrow> js_string \<Rightarrow> (js_string \<times> js_string) list \<Rightarrow> (js_string \<times> js_string) list" where
  "set_header n v [] = [(n, v)]"
| "set_header n v (h # hs) = (if fst h = n then (n, v) # hs else h # set_header n v hs)"

definition headers_set :: "js_string \<Rightarrow> js_string \<Rightarrow> response \<Rightarrow> response" where
  "headers_set n v res = res\<lparr>headers := set_header n v (headers res)\<rparr>"

text \<open>
  What a call of the middleware does: the lines it writes with \<^verbatim>\<open>console.log\<close>, and the
  response it returns or the exception it throws.
\<close>

record outcome =
  logged :: "js_string list"
  result :: "error + response"

section \<open>The middleware (\<^verbatim>\<open>middleware.ts\<close>)\<close>

definition publicPaths :: "js_string list" where
  "publicPaths =
     [str ''/login'',
      str ''/forgot-password'',
      str ''/reset-password'',
      str ''/training'',
      str ''/_next'',
      str ''/favicon.ico'',
      str ''/api/users/auth/login'',
      str ''/api/users/auth/refresh'']"

definition isPublicPath :: "js_string \<Rightarrow> bool" where
  "isPublicPath p = list_ex (\<lambda>path. startsWith p path) publicPaths"

definition adminPaths :: "js_string list" where
  "adminPaths = [str ''/admin'', str ''/users'', str ''/user-management'']"

definition requiresAdminAccess :: "js_string \<Rightarrow> bool" where
  "requiresAdminAccess p = list_ex (\<lambda>path. startsWith p path) adminPaths"

text \<open>
  The cookie object is truthy whenever the cookie is there, whatever its value; the
  exception of \<^verbatim>\<open>JSON.parse\<close> is caught.
\<close>

definition getUserFromRequest :: "request \<Rightarrow> json" where
  "getUserFromRequest req =
     (case cookies req (str ''user'') of
        Some v \<Rightarrow> (case JSON_parse v of Inr user \<Rightarrow> user | Inl e \<Rightarrow> JNull)
      | None \<Rightarrow> JNull)"

definition adminRoles :: "js_string list" where
  "adminRoles = [str ''system admin'', str ''administrator'', str ''admin'']"

text \<open>
  The callback \<^verbatim>\<open>role => user.role?.toLowerCase().includes(role.toLowerCase())\<close>.
  The optional chain stops on an undefined or null role and the callback returns
  undefined, which is falsy. A role that is a number, a boolean, an array or an object
  has no \<^verbatim>\<open>toLowerCase\<close>, and calling it throws a TypeError.
\<close>

definition role_matches :: "runtime \<Rightarrow> json \<Rightarrow> js_string \<Rightarrow> error + bool" where
  "role_matches rt user role =
     (case role_of user of
        None \<Rightarrow> Inr False
      | Some JNull \<Rightarrow> Inr False
      | Some (JString s) \<Rightarrow> Inr (js_includes (toLowerCase rt s) (toLowerCase rt role))
      | Some other \<Rightarrow> Inl TypeError)"

text \<open>\<^verbatim>\<open>xs.some(f)\<close> for a callback that may throw: it stops at the first truthy result
  and at the first exception.\<close>

fun array_some :: "('a \<Rightarrow> error + bool) \<Rightarrow> 'a list \<Rightarrow> error + bool" where
  "array_some f [] = Inr False"
| "array_some f (x # xs) =
     (case f x of
        Inl e \<Rightarrow> Inl e
      | Inr b \<Rightarrow> if b then Inr True else array_some f xs)"

definition log_line :: "runtime \<Rightarrow> request \<Rightarrow> js_string" where
  "log_line rt req =
     now_iso rt @ str '' - '' @ method req @ str '' '' @ pathname (nextUrl req) @ str '' - ''
       @ (case ip req of
            None \<Rightarrow> str ''unknown IP''
          | Some a \<Rightarrow> if a = [] then str ''unknown IP'' else a)"

definition middleware :: "runtime \<Rightarrow> request \<Rightarrow> outcome" where
  "middleware rt req =
     (let p = pathname (nextUrl req) in
      if isPublicPath p then \<lparr>logged = [], result = Inr NextResponse_next\<rparr>
      else
        let response = NextResponse_next;
            response = headers_set (str ''X-Frame-Options'') (str ''DENY'') response;
            response = headers_set (str ''X-Content-Type-Options'') (str ''nosniff'') response;
            response = headers_set (str ''Referrer-Policy'')
                         (str ''strict-origin-when-cross-origin'') response;
            response = headers_set (str ''X-XSS-Protection'') (str ''1; mode=block'') response
        in
        if NODE_ENV rt = Some (str ''production'')
             \<and> \<not> js_includes (protocol (nextUrl req)) (str ''https'')
        then \<lparr>logged = [],
              result = Inr (NextResponse_redirect
                 (Href (str ''https://'' @ host (nextUrl req) @ pathname (nextUrl req)
                          @ search (nextUrl req))))\<rparr>
        else
          let line = log_line rt req;
              user = getUserFromRequest req
          in
          if \<not> ToBoolean user then
            \<lparr>logged = [line],
             result = Inr (NextResponse_redirect
                (UrlObject (searchParams_set (str ''redirect'') p
                   (new_URL (str ''/login'') (nextUrl req)))))\<rparr>
          else if requiresAdminAccess p then
            (case array_some (role_matches rt user) adminRoles of
               Inl e \<Rightarrow> \<lparr>logged = [line], result = Inl e\<rparr>
             | Inr hasAdminAccess \<Rightarrow>
                if \<not> hasAdminAccess then
                  \<lparr>logged = [line],
                   result = Inr (NextResponse_redirect
                      (UrlObject (new_URL (str ''/dashboard'') (nextUrl req))))\<rparr>
                else \<lparr>logged = [line], result = Inr response\<rparr>)
          else \<lparr>logged = [line], result = Inr response\<rparr>)"

section \<open>The compliance helpers (\<^verbatim>\<open>complianceApi.ts\<close>)\<close>

text \<open>
  \<^verbatim>\<open>fetch\<close> sends one request and settles with a response, of which the code reads the
  status and the body text, or rejects with a TypeError when no response arrives. The
  upstream answers a request in the light of the requests sent before it; the world keeps
  the list of requests sent.
\<close>

record fetch_request =
  f_url :: js_string
  f_method :: js_string
  f_headers :: "(js_string \<times> js_string) list"
  f_body :: "js_string option"

datatype fetch_outcome = Rejected | Response nat js_string

record world =
  upstream :: "fetch_request list \<Rightarrow> fetch_request \<Rightarrow> fetch_outcome"
  sent :: "fetch_request list"

definition fetch :: "fetch_request \<Rightarrow> world \<Rightarrow> fetch_outcome \<times> world" where
  "fetch rq w = (upstream w (sent w) rq, w\<lparr>sent := sent w @ [rq]\<rparr>)"

text \<open>\<^verbatim>\<open>res.ok\<close>\<close>

definition ok :: "nat \<Rightarrow> bool" where
  "ok status = (200 \<le> status \<and> status \<le> 299)"

text \<open>\<^verbatim>\<open>res.json()\<close>: the body text parsed as JSON.\<close>

definition res_json :: "js_string \<Rightarrow> error + json" where
  "res_json body = JSON_parse body"

text \<open>
  \<^verbatim>\<open>JSON.stringify\<close> of a string: the quotation mark, the backslash and the control
  characters are escaped, and so is a surrogate without its partner.
\<close>

definition lower_hex_digit :: "nat \<Rightarrow> code_unit" where
  "lower_hex_digit n = (if n < 10 then of_nat (48 + n) else of_nat (87 + n))"

definition unicode_escape :: "code_unit \<Rightarrow> js_string" where
  "unicode_escape c =
     [0x5C, 0x75, lower_hex_digit (unat c div 4096), lower_hex_digit (unat c div 256 mod 16),
      lower_hex_digit (unat c div 16 mod 16), lower_hex_digit (unat c mod 16)]"

definition quote_unit :: "code_unit \<Rightarrow> js_string" where
  "quote_unit c =
     (if c = 0x08 then [0x5C, 0x62]
      else if c = 0x09 then [0x5C, 0x74]
      else if c = 0x0A then [0x5C, 0x6E]
      else if c = 0x0C then [0x5C, 0x66]
      else if c = 0x0D then [0x5C, 0x72]
      else if c = 0x22 then [0x5C, 0x22]
      else if c = 0x5C then [0x5C, 0x5C]
      else if c < 0x20 \<or> is_lead c \<or> is_trail c then unicode_escape c
      else [c])"

fun quote_units :: "js_string \<Rightarrow> js_string" where
  "quote_units [] = []"
| "quote_units [c] = quote_unit c"
| "quote_units (c # d # cs) =
     (if is_lead c \<and> is_trail d then c # d # quote_units cs
      else quote_unit c @ quote_units (d # cs))"

definition JSON_quote :: "js_string \<Rightarrow> js_string" where
  "JSON_quote s = [0x22] @ quote_units s @ [0x22]"

definition fetchDueTasks :: "runtime \<Rightarrow> js_string \<Rightarrow> world \<Rightarrow> (error + json) \<times> world" where
  "fetchDueTasks rt hotelId w =
     (case fetch \<lparr>f_url = template (NEXT_PUBLIC_API_URL rt) @ str ''/api/compliance/due-tasks/''
                            @ hotelId,
                  f_method = str ''GET'', f_headers = [], f_body = None\<rparr> w of
        (Rejected, w') \<Rightarrow> (Inl TypeError, w')
      | (Response status body, w') \<Rightarrow>
          if \<not> ok status then (Inl (Error (str ''Failed to fetch due tasks'')), w')
          else (res_json body, w'))"

definition acknowledgeNextMonthTask ::
    "runtime \<Rightarrow> js_string \<Rightarrow> js_string \<Rightarrow> world \<Rightarrow> (error + json) \<times> world" where
  "acknowledgeNextMonthTask rt hotelId taskId w =
     (case fetch \<lparr>f_url = template (NEXT_PUBLIC_API_URL rt)
                            @ str ''/api/compliance/acknowledge-task'',
                  f_method = str ''POST'',
                  f_headers = [(str ''Content-Type'', str ''application/json'')],
                  f_body = Some (str ''{'' @ JSON_quote (str ''hotel_id'') @ str '':''
                                   @ JSON_quote hotelId @ str '','' @ JSON_quote (str ''task_id'')
                                   @ str '':'' @ JSON_quote taskId @ str ''}'')\<rparr> w of
        (Rejected, w') \<Rightarrow> (Inl TypeError, w')
      | (Response status body, w') \<Rightarrow>
          if \<not> ok status then (Inl (Error (str ''Failed to acknowledge task'')), w')
          else (res_json body, w'))"

section \<open>The specification's vocabulary\<close>

text \<open>
  The path classes, in the order in which the middleware tests them, and the five gate
  decisions as the responses that stand for them.
\<close>

datatype PathClass = Public | AdminProtected | OrdinaryProtected

definition classify :: "js_string \<Rightarrow> PathClass" where
  "classify p =
     (if isPublicPath p then Public
      else if requiresAdminAccess p then AdminProtected
      else OrdinaryProtected)"

definition Allow :: response where
  "Allow = \<lparr>redirect = None, headers = []\<rparr>"

definition AllowWithHeaders :: response where
  "AllowWithHeaders =
     \<lparr>redirect = None,
      headers = [(str ''X-Frame-Options'', str ''DENY''),
                 (str ''X-Content-Type-Options'', str ''nosniff''),
                 (str ''Referrer-Policy'', str ''strict-origin-when-cross-origin''),
                 (str ''X-XSS-Protection'', str ''1; mode=block'')]\<rparr>"

definition RedirectLogin :: "request \<Rightarrow> response" where
  "RedirectLogin req =
     \<lparr>redirect = Some (UrlObject
        \<lparr>protocol = protocol (nextUrl req), host = host (nextUrl req),
         pathname = str ''/login'',
         search = str ''?redirect='' @ urlencode (pathname (nextUrl req))\<rparr>),
      headers = []\<rparr>"

definition RedirectDefault :: "request \<Rightarrow> response" where
  "RedirectDefault req =
     \<lparr>redirect = Some (UrlObject
        \<lparr>protocol = protocol (nextUrl req), host = host (nextUrl req),
         pathname = str ''/dashboard'', search = []\<rparr>),
      headers = []\<rparr>"

definition RedirectHttps :: "request \<Rightarrow> response" where
  "RedirectHttps req =
     \<lparr>redirect = Some (Href (str ''https://'' @ host (nextUrl req) @ pathname (nextUrl req)
                               @ search (nextUrl req))),
      headers = []\<rparr>"

text \<open>
  The specification's words, \<open>s\<close> contains \<open>t\<close> case-insensitively, for ASCII text: some
  segment of \<open>s\<close> is \<open>t\<close> when the letters \<open>A\<close> to \<open>Z\<close> count as \<open>a\<close> to \<open>z\<close>.
\<close>

definition contains_ignoring_case :: "js_string \<Rightarrow> js_string \<Rightarrow> bool" where
  "contains_ignoring_case s t =
     list_ex (\<lambda>u. map ascii_lower u = map ascii_lower t) (sublists s)"

section \<open>Example inputs\<close>

text \<open>
  Two runtimes, one in development and one in production mode, and a \<^verbatim>\<open>GET\<close> request to
  \<^verbatim>\<open>example.com\<close> with a given protocol and path, no query, and the cookie \<open>user\<close> when a
  value for it is given. The examples hold ASCII text only, so the case tables of the two
  runtimes are never consulted; the identity stands in for them.
\<close>

definition dev_runtime :: runtime where
  "dev_runtime =
     \<lparr>NODE_ENV = Some (str ''development''), NEXT_PUBLIC_API_URL = Some (str ''http://localhost:8000''),
      now_iso = str ''2025-01-01T00:00:00.000Z'', unicode_lower = id\<rparr>"

definition production_runtime :: runtime where
  "production_runtime =
     \<lparr>NODE_ENV = Some (str ''production''), NEXT_PUBLIC_API_URL = Some (str ''https://api.example.com''),
      now_iso = str ''2025-01-01T00:00:00.000Z'', unicode_lower = id\<rparr>"

definition example_request :: "string \<Rightarrow> string \<Rightarrow> string option \<Rightarrow> request" where
  "example_request proto path cookie =
     \<lparr>nextUrl = \<lparr>protocol = str proto, host = str ''example.com'', pathname = str path, search = []\<rparr>,
      method = str ''GET'', ip = None,
      cookies = (case cookie of None \<Rightarrow> Map.empty | Some v \<Rightarrow> [str ''user'' \<mapsto> str v]),
      req_headers = []\<rparr>"

text \<open>A world in which nothing has been sent and every request gets the same answer.\<close>

definition example_world :: "nat \<Rightarrow> string \<Rightarrow> world" where
  "example_world status body = \<lparr>upstream = (\<lambda>history rq. Response status (str body)), sent = []\<rparr>"

section \<open>The parser consumes its input\<close>

text \<open>
  Whatever the parser returns as the rest is shorter than the text it was given. So the
  length tests in \<open>parse_elements\<close> and \<open>parse_members\<close> always succeed, and the two
  functions satisfy the equations of the JSON grammar without them.
\<close>

lemma skip_ws_length: "length (skip_ws cs) \<le> length cs"
  unfolding skip_ws_def by (rule length_dropWhile_le)

lemma skip_ws_Cons_shorter: "skip_ws cs = c # r \<Longrightarrow> length r < length cs"
  using skip_ws_length [of cs] by simp

lemma parse_string_shorter: "parse_string cs = Some (s, r) \<Longrightarrow> length r < length cs"
proof (induction cs arbitrary: s r rule: parse_string.induct)
  case 1
  then show ?case by simp
next
  case (2 c cs)
  show ?case
  proof (cases "c = 0x22")
    case True
    with "2.prems" show ?thesis by simp
  next
    case q: False
    show ?thesis
    proof (cases "c = 0x5C")
      case False
      with q "2.prems" obtain s' where "parse_string cs = Some (s', r)"
        by (auto split: if_splits)
      with "2.IH"(3) [OF q False] q False "2.prems" show ?thesis
        by (fastforce split: if_splits)
    next
      case bs: True
      show ?thesis
      proof (cases cs)
        case Nil
        with bs q "2.prems" show ?thesis by simp
      next
        case (Cons e es)
        show ?thesis
        proof (cases "e = 0x75")
          case False
          with bs q Cons "2.prems" obtain u s' where "escape e = Some u" "parse_string es = Some (s', r)"
            by (auto split: option.splits)
          with "2.IH"(2) [OF q bs Cons False] show ?thesis
            using Cons by fastforce
        next
          case True
          with bs q Cons "2.prems" obtain h1 h2 h3 h4 rest u s'
            where es: "es = h1 # h2 # h3 # h4 # rest" and "hex4 h1 h2 h3 h4 = Some u"
              and "parse_string rest = Some (s', r)"
            by (auto split: list.splits option.splits)
          with "2.IH"(1) [OF q bs Cons True es] show ?thesis
            using Cons es by fastforce
        qed
      qed
    qed
  qed
qed

lemma parse_number_shorter: "parse_number cs = Some (v, r) \<Longrightarrow> length r < length cs"
proof -
  have d: "\<And>xs. length (dropWhile is_digit xs) \<le> length xs"
    by (rule length_dropWhile_le)
  have ip: "\<And>cs a b. parse_int_part cs = Some (a, b) \<Longrightarrow> length b < length cs"
    using d by (fastforce simp: parse_int_part_def split: list.splits if_splits intro: le_imp_less_Suc)
  have fp: "\<And>cs a b. parse_frac_part cs = Some (a, b) \<Longrightarrow> length b \<le> length cs"
    using d by (fastforce simp: parse_frac_part_def split: list.splits if_splits intro: le_SucI)
  have ed: "\<And>n cs a b. parse_exp_digits n cs = Some (a, b) \<Longrightarrow> length b \<le> length cs"
    using d by (auto simp: parse_exp_digits_def split: if_splits)
  have ep: "\<And>cs a b. parse_exp_part cs = Some (a, b) \<Longrightarrow> length b \<le> length cs"
    by (fastforce simp: parse_exp_part_def split: list.splits if_splits dest: ed)
  have un: "\<And>n cs a b. parse_unsigned n cs = Some (a, b) \<Longrightarrow> length b < length cs"
    by (fastforce simp: parse_unsigned_def split: option.splits prod.splits dest: ip fp ep)
  assume "parse_number cs = Some (v, r)"
  then show ?thesis
    by (fastforce simp: parse_number_def split: list.splits if_splits dest: un)
qed


lemma parse_shorter:
  "parse_value cs = Some (v, r) \<Longrightarrow> length r < length cs"
  "parse_elements cs1 = Some (vs, r1) \<Longrightarrow> length r1 < length cs1"
  "parse_members cs2 = Some (ms, r2) \<Longrightarrow> length r2 < length cs2"
proof (induction cs and cs1 and cs2 arbitrary: v r and vs r1 and ms r2
        rule: parse_value_parse_elements_parse_members.induct)
  case (1 cs)
  from "1.prems" obtain c t where sk: "skip_ws cs = c # t"
    by (subst (asm) parse_value.simps) (auto split: list.splits)
  then have t: "length t < length cs"
    by (rule skip_ws_Cons_shorter)
  consider (arr) "c = 0x5B" | (obj) "c \<noteq> 0x5B" "c = 0x7B" | (strg) "c \<noteq> 0x5B" "c \<noteq> 0x7B" "c = 0x22"
    | (other) "c \<noteq> 0x5B" "c \<noteq> 0x7B" "c \<noteq> 0x22"
    by blast
  then show ?case
  proof cases
    case arr
    with "1.prems" sk obtain c' t' where sk': "skip_ws t = c' # t'"
      by (subst (asm) parse_value.simps) (auto split: list.splits)
    show ?thesis
    proof (cases "c' = 0x5D")
      case True
      with "1.prems" sk sk' arr have "r = t'"
        by (subst (asm) parse_value.simps) auto
      with skip_ws_Cons_shorter [OF sk'] t show ?thesis by simp
    next
      case False
      with "1.prems" sk sk' arr obtain vs where "parse_elements t = Some (vs, r)"
        by (subst (asm) parse_value.simps) auto
      from "1.IH"(1) [OF sk arr sk' False this] t show ?thesis by simp
    qed
  next
    case obj
    with "1.prems" sk obtain c' t' where sk': "skip_ws t = c' # t'"
      by (subst (asm) parse_value.simps) (auto split: list.splits)
    show ?thesis
    proof (cases "c' = 0x7D")
      case True
      with "1.prems" sk sk' obj have "r = t'"
        by (subst (asm) parse_value.simps) auto
      with skip_ws_Cons_shorter [OF sk'] t show ?thesis by simp
    next
      case False
      with "1.prems" sk sk' obj obtain ms where "parse_members t = Some (ms, r)"
        by (subst (asm) parse_value.simps) auto
      from "1.IH"(2) [OF sk obj sk' False this] t show ?thesis by simp
    qed
  next
    case strg
    with "1.prems" sk obtain s where "parse_string t = Some (s, r)"
      by (subst (asm) parse_value.simps) auto
    from parse_string_shorter [OF this] t show ?thesis by simp
  next
    case other
    with "1.prems" sk have "r = drop 3 t \<or> r = drop 4 t \<or> parse_number (c # t) = Some (v, r)"
      by (subst (asm) parse_value.simps) (auto split: if_splits)
    then have "length r < Suc (length t)"
      using parse_number_shorter [of "c # t" v r] by auto
    with t show ?thesis by simp
  qed
next
  case (2 cs)
  from "2.prems" obtain v t where pv: "parse_value cs = Some (v, t)"
    by (subst (asm) parse_elements.simps) (auto split: option.splits)
  from "2.IH"(1) [OF pv] have t: "length t < length cs" .
  from "2.prems" pv obtain c t' where sk: "skip_ws t = c # t'"
    by (subst (asm) parse_elements.simps) (auto split: list.splits)
  from skip_ws_Cons_shorter [OF sk] t have t': "length t' < length cs" by simp
  show ?case
  proof (cases "c = 0x5D")
    case True
    with "2.prems" pv sk have "r1 = t'"
      by (subst (asm) parse_elements.simps) auto
    with t' show ?thesis by simp
  next
    case False
    with "2.prems" pv sk have g: "c = 0x2C \<and> length t' < length cs"
      by (subst (asm) parse_elements.simps) (auto split: if_splits)
    with "2.prems" pv sk False obtain vs' where "parse_elements t' = Some (vs', r1)"
      by (subst (asm) parse_elements.simps) auto
    from "2.IH"(2) [OF pv refl sk False g this] t' show ?thesis by simp
  qed
next
  case (3 cs)
  from "3.prems" obtain q t where sk: "skip_ws cs = q # t"
    by (subst (asm) parse_members.simps) (auto split: list.splits)
  from "3.prems" sk have q: "q = 0x22"
    by (subst (asm) parse_members.simps) (auto split: if_splits)
  from "3.prems" sk q obtain k t1 where ps: "parse_string t = Some (k, t1)"
    by (subst (asm) parse_members.simps) (auto split: option.splits)
  from "3.prems" sk q ps obtain col t2 where sk1: "skip_ws t1 = col # t2"
    by (subst (asm) parse_members.simps) (auto split: list.splits)
  from "3.prems" sk q ps sk1 have g: "col = 0x3A \<and> length t2 < length cs"
    by (subst (asm) parse_members.simps) (auto split: if_splits)
  from "3.prems" sk q ps sk1 g obtain v t3 where pv: "parse_value t2 = Some (v, t3)"
    by (subst (asm) parse_members.simps) (auto split: option.splits)
  from "3.IH"(1) [OF sk q ps refl sk1 g pv] g have t3: "length t3 < length cs" by simp
  from "3.prems" sk q ps sk1 g pv obtain c t4 where sk3: "skip_ws t3 = c # t4"
    by (subst (asm) parse_members.simps) (auto split: list.splits)
  from skip_ws_Cons_shorter [OF sk3] t3 have t4: "length t4 < length cs" by simp
  show ?case
  proof (cases "c = 0x7D")
    case True
    with "3.prems" sk q ps sk1 g pv sk3 have "r2 = t4"
      by (subst (asm) parse_members.simps) auto
    with t4 show ?thesis by simp
  next
    case False
    with "3.prems" sk q ps sk1 g pv sk3 have g': "c = 0x2C \<and> length t4 < length cs"
      by (subst (asm) parse_members.simps) (auto split: if_splits)
    with "3.prems" sk q ps sk1 g pv sk3 False obtain ms' where "parse_members t4 = Some (ms', r2)"
      by (subst (asm) parse_members.simps) auto
    from "3.IH"(2) [OF sk q ps refl sk1 g pv refl sk3 False g' this] t4 show ?thesis by simp
  qed
qed


lemma parse_elements_unguarded:
  "parse_elements cs =
     (case parse_value cs of
        None \<Rightarrow> None
      | Some (v, r) \<Rightarrow>
         (case skip_ws r of
            [] \<Rightarrow> None
          | c # r' \<Rightarrow>
             if c = 0x5D then Some ([v], r')
             else if c = 0x2C then map_option (apfst ((#) v)) (parse_elements r')
             else None))"
proof -
  have "length r' < length cs"
    if "parse_value cs = Some (v, r)" and "skip_ws r = c # r'" for v r c r'
    using parse_shorter(1) [OF that(1)] skip_ws_Cons_shorter [OF that(2)] by simp
  then show ?thesis
    by (subst parse_elements.simps)
       (auto simp del: parse_value.simps parse_elements.simps parse_members.simps
          split: option.splits list.splits)
qed

lemma parse_members_unguarded:
  "parse_members cs =
     (case skip_ws cs of
        [] \<Rightarrow> None
      | q # r \<Rightarrow>
         if q = 0x22 then
           (case parse_string r of
              None \<Rightarrow> None
            | Some (k, r1) \<Rightarrow>
               (case skip_ws r1 of
                  [] \<Rightarrow> None
                | col # r2 \<Rightarrow>
                   if col = 0x3A then
                     (case parse_value r2 of
                        None \<Rightarrow> None
                      | Some (v, r3) \<Rightarrow>
                         (case skip_ws r3 of
                            [] \<Rightarrow> None
                          | c # r4 \<Rightarrow>
                             if c = 0x7D then Some ([(k, v)], r4)
                             else if c = 0x2C then map_option (apfst ((#) (k, v))) (parse_members r4)
                             else None))
                   else None))
         else None)"
proof -
  have a: "length r2 < length cs"
    if "skip_ws cs = q # r" and "parse_string r = Some (k, r1)" and "skip_ws r1 = col # r2"
    for q r k r1 col r2
    using skip_ws_Cons_shorter [OF that(1)] parse_string_shorter [OF that(2)]
      skip_ws_Cons_shorter [OF that(3)] by simp
  have b: "length r4 < length cs"
    if "skip_ws cs = q # r" and "parse_string r = Some (k, r1)" and "skip_ws r1 = col # r2"
      and "parse_value r2 = Some (v, r3)" and "skip_ws r3 = c # r4"
    for q r k r1 col r2 v r3 c r4
    using a [OF that(1,2,3)] parse_shorter(1) [OF that(4)] skip_ws_Cons_shorter [OF that(5)]
    by simp
  show ?thesis
    by (subst parse_members.simps)
       (auto simp del: parse_value.simps parse_elements.simps parse_members.simps
          split: option.splits list.splits dest: a b)
qed

section \<open>Properties of the library functions and of the middleware\<close>

lemma startsWith_prefix: "startsWith s t \<longleftrightarrow> prefix t s"
proof
  assume "startsWith s t"
  then have "s = t @ drop (length t) s"
    unfolding startsWith_def by (metis append_take_drop_id)
  then show "prefix t s" by (metis prefixI)
next
  assume "prefix t s"
  then obtain zs where "s = t @ zs" by (auto simp: prefix_def)
  then show "startsWith s t" by (simp add: startsWith_def)
qed

lemma js_includes_sublist: "js_includes s t \<longleftrightarrow> sublist t s"
  by (induction s) (simp_all add: startsWith_prefix sublist_Cons_right)

lemma secured_response:
  "headers_set (str ''X-XSS-Protection'') (str ''1; mode=block'')
     (headers_set (str ''Referrer-Policy'') (str ''strict-origin-when-cross-origin'')
        (headers_set (str ''X-Content-Type-Options'') (str ''nosniff'')
           (headers_set (str ''X-Frame-Options'') (str ''DENY'') NextResponse_next)))
   = AllowWithHeaders"
  by (simp add: headers_set_def NextResponse_next_def AllowWithHeaders_def str_def)

lemma login_query:
  "[0x3F] @ urlencoded_serialize (params_set (str ''redirect'') p [])
     = str ''?redirect='' @ urlencode p"
proof -
  have "urlencode (str ''redirect'') = str ''redirect''"
    by code_simp
  then show ?thesis
    by (simp add: str_def)
qed

lemma login_query_serialized:
  "str ''?'' @ urlencoded_serialize [(str ''redirect'', p)] = str ''?redirect='' @ urlencode p"
proof -
  have "urlencode (str ''redirect'') = str ''redirect''"
    by code_simp
  then show ?thesis
    by (simp add: str_def)
qed

lemma login_target:
  "NextResponse_redirect
     (UrlObject (searchParams_set (str ''redirect'') (pathname (nextUrl req))
        (new_URL (str ''/login'') (nextUrl req)))) = RedirectLogin req"
  unfolding searchParams_set_def login_query
  by (cases "nextUrl req")
     (simp add: NextResponse_redirect_def new_URL_def RedirectLogin_def)

lemma default_target:
  "NextResponse_redirect (UrlObject (new_URL (str ''/dashboard'') (nextUrl req)))
     = RedirectDefault req"
  by (cases "nextUrl req")
     (simp add: NextResponse_redirect_def new_URL_def RedirectDefault_def)

lemma https_target:
  "NextResponse_redirect (Href (str ''https://'' @ host (nextUrl req) @ pathname (nextUrl req)
       @ search (nextUrl req))) = RedirectHttps req"
  by (simp add: NextResponse_redirect_def RedirectHttps_def)

lemma middleware_cases:
  "middleware rt req =
     (if isPublicPath (pathname (nextUrl req)) then \<lparr>logged = [], result = Inr Allow\<rparr>
      else if NODE_ENV rt = Some (str ''production'')
             \<and> \<not> js_includes (protocol (nextUrl req)) (str ''https'')
        then \<lparr>logged = [], result = Inr (RedirectHttps req)\<rparr>
      else if \<not> ToBoolean (getUserFromRequest req)
        then \<lparr>logged = [log_line rt req], result = Inr (RedirectLogin req)\<rparr>
      else if requiresAdminAccess (pathname (nextUrl req)) then
        (case array_some (role_matches rt (getUserFromRequest req)) adminRoles of
           Inl e \<Rightarrow> \<lparr>logged = [log_line rt req], result = Inl e\<rparr>
         | Inr b \<Rightarrow> if b then \<lparr>logged = [log_line rt req], result = Inr AllowWithHeaders\<rparr>
                    else \<lparr>logged = [log_line rt req], result = Inr (RedirectDefault req)\<rparr>)
      else \<lparr>logged = [log_line rt req], result = Inr AllowWithHeaders\<rparr>)"
  unfolding middleware_def Let_def secured_response login_target default_target https_target
  by (simp add: NextResponse_next_def Allow_def split: sum.splits)


lemma toLowerCase_adminRoles:
  "toLowerCase rt (str ''system admin'') = str ''system admin''"
  "toLowerCase rt (str ''administrator'') = str ''administrator''"
  "toLowerCase rt (str ''admin'') = str ''admin''"
  by (simp_all add: toLowerCase_def str_def is_ascii_def ascii_lower_def)

lemma hasAdminAccess_string:
  assumes "role_of user = Some (JString s)"
  shows "array_some (role_matches rt user) adminRoles =
           Inr (sublist (str ''system admin'') (toLowerCase rt s)
                \<or> sublist (str ''administrator'') (toLowerCase rt s)
                \<or> sublist (str ''admin'') (toLowerCase rt s))"
  using assms
  by (simp add: adminRoles_def role_matches_def toLowerCase_adminRoles js_includes_sublist)

lemma hasAdminAccess_absent:
  assumes "role_of user = None \<or> role_of user = Some JNull"
  shows "array_some (role_matches rt user) adminRoles = Inr False"
  using assms by (auto simp: adminRoles_def role_matches_def)

lemma hasAdminAccess_other:
  assumes "role_of user = Some v" and "v \<noteq> JNull" and "\<forall>s. v \<noteq> JString s"
  shows "array_some (role_matches rt user) adminRoles = Inl TypeError"
  using assms by (cases v) (auto simp: adminRoles_def role_matches_def)


lemma isPublicPath_iff: "isPublicPath p \<longleftrightarrow> (\<exists>pre \<in> set publicPaths. prefix pre p)"
  by (simp add: isPublicPath_def list_ex_iff startsWith_prefix)

lemma user_without_cookie:
  "getUserFromRequest (req\<lparr>cookies := (cookies req)(str ''user'' := None)\<rparr>) = JNull"
  by (simp add: getUserFromRequest_def)

lemma middleware_no_identity:
  assumes "\<not> ToBoolean (getUserFromRequest req)"
  shows "middleware rt req =
     (if isPublicPath (pathname (nextUrl req)) then \<lparr>logged = [], result = Inr Allow\<rparr>
      else if NODE_ENV rt = Some (str ''production'')
             \<and> \<not> js_includes (protocol (nextUrl req)) (str ''https'')
        then \<lparr>logged = [], result = Inr (RedirectHttps req)\<rparr>
      else \<lparr>logged = [log_line rt req], result = Inr (RedirectLogin req)\<rparr>)"
  using assms by (simp add: middleware_cases)

lemma middleware_drop_cookie:
  assumes "\<not> ToBoolean (getUserFromRequest req)"
  shows "middleware rt (req\<lparr>cookies := (cookies req)(str ''user'' := None)\<rparr>) = middleware rt req"
proof -
  let ?req' = "req\<lparr>cookies := (cookies req)(str ''user'' := None)\<rparr>"
  have "\<not> ToBoolean (getUserFromRequest ?req')"
    by (simp add: user_without_cookie)
  then have "middleware rt ?req' =
     (if isPublicPath (pathname (nextUrl ?req')) then \<lparr>logged = [], result = Inr Allow\<rparr>
      else if NODE_ENV rt = Some (str ''production'')
             \<and> \<not> js_includes (protocol (nextUrl ?req')) (str ''https'')
        then \<lparr>logged = [], result = Inr (RedirectHttps ?req')\<rparr>
      else \<lparr>logged = [log_line rt ?req'], result = Inr (RedirectLogin ?req')\<rparr>)"
    by (rule middleware_no_identity)
  also have "\<dots> = middleware rt req"
    using assms
    by (simp add: middleware_no_identity RedirectHttps_def RedirectLogin_def log_line_def)
  finally show ?thesis .
qed

lemma toLowerCase_cong:
  "unicode_lower rt' = unicode_lower rt \<Longrightarrow> toLowerCase rt' s = toLowerCase rt s"
  by (simp add: toLowerCase_def)

lemma role_matches_cong:
  "unicode_lower rt' = unicode_lower rt \<Longrightarrow> role_matches rt' user = role_matches rt user"
  by (rule ext)
     (simp add: role_matches_def toLowerCase_cong [of rt' rt] split: option.splits json.splits)

lemma JSON_parse_not_Error: "JSON_parse body \<noteq> Inl (Error m)"
  by (simp add: JSON_parse_def split: option.splits prod.splits)

lemma ascii_role_contains:
  assumes "list_all is_ascii role" and "map ascii_lower t = t"
  shows "sublist t (toLowerCase rt role) \<longleftrightarrow> contains_ignoring_case role t"
proof -
  from assms(1) have l: "toLowerCase rt role = map ascii_lower role"
    by (simp add: toLowerCase_def)
  have "sublist t (map ascii_lower role) \<longleftrightarrow> (\<exists>u. sublist u role \<and> map ascii_lower u = t)"
  proof
    assume "sublist t (map ascii_lower role)"
    then obtain u where "sublist u role" "t = map ascii_lower u"
      using sublist_map_rightE by blast
    then show "\<exists>u. sublist u role \<and> map ascii_lower u = t"
      by blast
  next
    assume "\<exists>u. sublist u role \<and> map ascii_lower u = t"
    then show "sublist t (map ascii_lower role)"
      using map_mono_sublist by blast
  qed
  then show ?thesis
    unfolding l contains_ignoring_case_def list_ex_iff assms(2) by auto
qed

lemma adminRoles_lower:
  "map ascii_lower (str ''system admin'') = str ''system admin''"
  "map ascii_lower (str ''administrator'') = str ''administrator''"
  "map ascii_lower (str ''admin'') = str ''admin''"
  by (simp_all add: str_def ascii_lower_def)

text \<open>
  The one way in which the middleware throws, and what it returns or throws in all: a
  TypeError for a truthy user whose role is neither a string nor null, on an admin path
  behind the HTTPS check; one of five responses otherwise.
\<close>

lemma middleware_throws:
  "result (middleware rt req) = Inl e \<longleftrightarrow>
     e = TypeError
     \<and> \<not> isPublicPath (pathname (nextUrl req))
     \<and> (NODE_ENV rt \<noteq> Some (str ''production'') \<or> js_includes (protocol (nextUrl req)) (str ''https''))
     \<and> requiresAdminAccess (pathname (nextUrl req))
     \<and> (\<exists>v. role_of (getUserFromRequest req) = Some v \<and> v \<noteq> JNull \<and> (\<forall>s. v \<noteq> JString s))"
proof (cases "role_of (getUserFromRequest req)")
  case None
  then show ?thesis
    by (auto simp: middleware_cases hasAdminAccess_absent)
next
  case (Some v)
  then have truthy: "ToBoolean (getUserFromRequest req)"
    by (cases "getUserFromRequest req") simp_all
  consider (null) "v = JNull" | (string) s where "v = JString s"
    | (other) "v \<noteq> JNull" "\<forall>s. v \<noteq> JString s"
    by blast
  then show ?thesis
  proof cases
    case null
    with Some show ?thesis
      by (auto simp: middleware_cases hasAdminAccess_absent)
  next
    case string
    with Some show ?thesis
      by (auto simp: middleware_cases hasAdminAccess_string)
  next
    case other
    with Some truthy show ?thesis
      by (auto simp: middleware_cases hasAdminAccess_other [OF Some other])
  qed
qed

lemma middleware_decides:
  "result (middleware rt req) = Inl TypeError
   \<or> result (middleware rt req) = Inr Allow
   \<or> result (middleware rt req) = Inr AllowWithHeaders
   \<or> result (middleware rt req) = Inr (RedirectLogin req)
   \<or> result (middleware rt req) = Inr (RedirectDefault req)
   \<or> result (middleware rt req) = Inr (RedirectHttps req)"
proof (cases "result (middleware rt req)")
  case (Inl e)
  then show ?thesis
    by (simp add: middleware_throws)
next
  case (Inr r)
  then show ?thesis
    by (auto simp: middleware_cases split: if_splits sum.splits)
qed

section \<open>Public paths\<close>

text \<open>
  Claim C6. Whenever the path starts with one of the public prefixes, it is classified
  Public and the middleware returns the plain pass-through, with no header set and no
  line logged, whatever the runtime's mode, the protocol and the cookies are. The
  prefix test knows nothing of path segments: \<^verbatim>\<open>/loginX\<close> starts with \<^verbatim>\<open>/login\<close> and is public.
\<close>

theorem public_prefix_allows:
  assumes "pre \<in> set publicPaths" and "prefix pre (pathname (nextUrl req))"
  shows "classify (pathname (nextUrl req)) = Public
         \<and> middleware rt req = \<lparr>logged = [], result = Inr Allow\<rparr>
         \<and> Allow = \<lparr>redirect = None, headers = []\<rparr>"
proof -
  from assms have "isPublicPath (pathname (nextUrl req))"
    unfolding isPublicPath_iff by blast
  then show ?thesis
    by (simp add: classify_def middleware_cases Allow_def)
qed

theorem public_prefix_allows_witness:
  "str ''/login'' \<in> set publicPaths
   \<and> prefix (str ''/login'')
        (pathname (nextUrl (example_request ''http:'' ''/loginX'' (Some ''{\"role\":\"Admin\"}''))))
   \<and> classify (str ''/loginX'') = Public
   \<and> middleware production_runtime (example_request ''http:'' ''/loginX'' (Some ''{\"role\":\"Admin\"}''))
       = \<lparr>logged = [], result = Inr \<lparr>redirect = None, headers = []\<rparr>\<rparr>"
proof -
  let ?req = "example_request ''http:'' ''/loginX'' (Some ''{\"role\":\"Admin\"}'')"
  have h1: "str ''/login'' \<in> set publicPaths"
    by (simp add: publicPaths_def)
  have h2: "prefix (str ''/login'') (pathname (nextUrl ?req))"
    by (simp add: example_request_def str_def)
  have p: "pathname (nextUrl ?req) = str ''/loginX''"
    by (simp add: example_request_def)
  show ?thesis
    using h1 h2 public_prefix_allows [OF h1 h2, of production_runtime] by (simp add: p)
qed

section \<open>Exceptions\<close>

text \<open>
  Claim C2 says that the middleware never throws. The code does, at this input: in
  development mode, for the path \<^verbatim>\<open>/admin\<close>, the cookie \<^verbatim>\<open>{"role":1}\<close> parses to an object
  whose role is a number; the optional chain lets it through because it is neither
  undefined nor null, and the call of its missing \<^verbatim>\<open>toLowerCase\<close> throws a TypeError, after
  the line has been logged.
\<close>

theorem non_string_role_throws:
  "middleware dev_runtime (example_request ''http:'' ''/admin'' (Some ''{\"role\":1}''))
     = \<lparr>logged = [str ''2025-01-01T00:00:00.000Z - GET /admin - unknown IP''],
        result = Inl TypeError\<rparr>"
  by code_simp

section \<open>The admin gate\<close>

text \<open>
  Claim C1 as stated fails: in production mode, over plain HTTP, an admin path with the
  credential \<^verbatim>\<open>{"role":"Admin"}\<close> is redirected to HTTPS before the role is looked at.
\<close>

theorem admin_gate_counterexample:
  "classify (str ''/admin/settings'') = AdminProtected
   \<and> JSON_parse (str ''{\"role\":\"Admin\"}'') = Inr (JObject [(str ''role'', JString (str ''Admin''))])
   \<and> sublist (str ''admin'') (toLowerCase production_runtime (str ''Admin''))
   \<and> result (middleware production_runtime
               (example_request ''http:'' ''/admin/settings'' (Some ''{\"role\":\"Admin\"}'')))
       = Inr (RedirectHttps (example_request ''http:'' ''/admin/settings'' (Some ''{\"role\":\"Admin\"}'')))
   \<and> result (middleware production_runtime
               (example_request ''http:'' ''/admin/settings'' (Some ''{\"role\":\"Admin\"}'')))
       \<noteq> Inr AllowWithHeaders"
  by code_simp

text \<open>
  Claim C1, amended. Take a request to an admin-protected path that the HTTPS redirect
  does not catch (the runtime is not in production mode, or the protocol contains
  \<^verbatim>\<open>https\<close>), whose \<open>user\<close> cookie parses to a truthy value with a role that is a string,
  null or absent. The middleware returns the pass-through with the security headers
  exactly when the role is a string that, lower-cased, contains \<^verbatim>\<open>system admin\<close>,
  \<^verbatim>\<open>administrator\<close> or \<^verbatim>\<open>admin\<close>, and the redirect to \<^verbatim>\<open>/dashboard\<close> otherwise: also when the
  role is null or absent. For a role of ASCII text, exactly when the role contains one of
  the three, case-insensitively. A role of another type is the subject of claim C2.
\<close>

theorem admin_gate:
  assumes "classify (pathname (nextUrl req)) = AdminProtected"
    and "NODE_ENV rt \<noteq> Some (str ''production'') \<or> js_includes (protocol (nextUrl req)) (str ''https'')"
    and "cookies req (str ''user'') = Some v"
    and "JSON_parse v = Inr user"
    and "ToBoolean user"
    and "role_of user = None \<or> role_of user = Some JNull \<or> role_of user = Some (JString role)"
  shows "(result (middleware rt req) = Inr AllowWithHeaders
            \<longleftrightarrow> role_of user = Some (JString role)
                \<and> (sublist (str ''system admin'') (toLowerCase rt role)
                     \<or> sublist (str ''administrator'') (toLowerCase rt role)
                     \<or> sublist (str ''admin'') (toLowerCase rt role)))
         \<and> (result (middleware rt req) = Inr AllowWithHeaders
              \<or> result (middleware rt req) = Inr (RedirectDefault req))
         \<and> (list_all is_ascii role \<longrightarrow>
              (result (middleware rt req) = Inr AllowWithHeaders
                 \<longleftrightarrow> role_of user = Some (JString role)
                     \<and> (contains_ignoring_case role (str ''system admin'')
                          \<or> contains_ignoring_case role (str ''administrator'')
                          \<or> contains_ignoring_case role (str ''admin''))))"
proof -
  from assms(1) have pub: "\<not> isPublicPath (pathname (nextUrl req))"
    and adm: "requiresAdminAccess (pathname (nextUrl req))"
    by (auto simp: classify_def split: if_splits)
  from assms(3,4) have user: "getUserFromRequest req = user"
    by (simp add: getUserFromRequest_def)
  have diff: "RedirectDefault req \<noteq> AllowWithHeaders"
    by (simp add: RedirectDefault_def AllowWithHeaders_def)
  have gate: "result (middleware rt req) =
      (case array_some (role_matches rt user) adminRoles of
         Inl e \<Rightarrow> Inl e
       | Inr b \<Rightarrow> if b then Inr AllowWithHeaders else Inr (RedirectDefault req))"
    using pub adm assms(2,5)
    by (auto simp: middleware_cases user split: sum.splits)
  have a: "result (middleware rt req) = Inr AllowWithHeaders
            \<longleftrightarrow> role_of user = Some (JString role)
                \<and> (sublist (str ''system admin'') (toLowerCase rt role)
                     \<or> sublist (str ''administrator'') (toLowerCase rt role)
                     \<or> sublist (str ''admin'') (toLowerCase rt role))"
    and b: "result (middleware rt req) = Inr AllowWithHeaders
              \<or> result (middleware rt req) = Inr (RedirectDefault req)"
  proof -
    consider (absent) "role_of user = None \<or> role_of user = Some JNull"
      | (string) "role_of user = Some (JString role)"
      using assms(6) by blast
    then have "(result (middleware rt req) = Inr AllowWithHeaders
            \<longleftrightarrow> role_of user = Some (JString role)
                \<and> (sublist (str ''system admin'') (toLowerCase rt role)
                     \<or> sublist (str ''administrator'') (toLowerCase rt role)
                     \<or> sublist (str ''admin'') (toLowerCase rt role)))
         \<and> (result (middleware rt req) = Inr AllowWithHeaders
              \<or> result (middleware rt req) = Inr (RedirectDefault req))"
    proof cases
      case absent
      from hasAdminAccess_absent [OF absent, of rt] absent diff show ?thesis
        by (auto simp: gate)
    next
      case string
      from hasAdminAccess_string [OF string, of rt] string diff show ?thesis
        by (auto simp: gate)
    qed
    then show "result (middleware rt req) = Inr AllowWithHeaders
            \<longleftrightarrow> role_of user = Some (JString role)
                \<and> (sublist (str ''system admin'') (toLowerCase rt role)
                     \<or> sublist (str ''administrator'') (toLowerCase rt role)
                     \<or> sublist (str ''admin'') (toLowerCase rt role))"
      and "result (middleware rt req) = Inr AllowWithHeaders
              \<or> result (middleware rt req) = Inr (RedirectDefault req)"
      by blast+
  qed
  from a b show ?thesis
    by (simp add: ascii_role_contains adminRoles_lower)
qed

theorem admin_gate_witness:
  "classify (str ''/admin/settings'') = AdminProtected
   \<and> classify (str ''/users'') = AdminProtected
   \<and> JSON_parse (str ''{\"role\":\"Admin\"}'') = Inr (JObject [(str ''role'', JString (str ''Admin''))])
   \<and> contains_ignoring_case (str ''Admin'') (str ''admin'')
   \<and> result (middleware dev_runtime (example_request ''http:'' ''/admin/settings'' (Some ''{\"role\":\"Admin\"}'')))
     = Inr AllowWithHeaders
   \<and> result (middleware dev_runtime (example_request ''http:'' ''/users'' (Some ''{\"role\":\"staff\"}'')))
     = Inr (RedirectDefault (example_request ''http:'' ''/users'' (Some ''{\"role\":\"staff\"}'')))
   \<and> redirect (RedirectDefault (example_request ''http:'' ''/users'' (Some ''{\"role\":\"staff\"}'')))
     = Some (UrlObject \<lparr>protocol = str ''http:'', host = str ''example.com'',
                         pathname = str ''/dashboard'', search = []\<rparr>)
   \<and> JSON_parse (str ''{}'') = Inr (JObject [])
   \<and> result (middleware dev_runtime (example_request ''http:'' ''/admin'' (Some ''{}'')))
     = Inr (RedirectDefault (example_request ''http:'' ''/admin'' (Some ''{}'')))
   \<and> JSON_parse (str ''{\"role\":null}'') = Inr (JObject [(str ''role'', JNull)])
   \<and> result (middleware dev_runtime (example_request ''http:'' ''/admin'' (Some ''{\"role\":null}'')))
     = Inr (RedirectDefault (example_request ''http:'' ''/admin'' (Some ''{\"role\":null}'')))
   \<and> JSON_parse (str ''\"admin\"'') = Inr (JString (str ''admin''))
   \<and> result (middleware dev_runtime (example_request ''http:'' ''/admin'' (Some ''\"admin\"'')))
     = Inr (RedirectDefault (example_request ''http:'' ''/admin'' (Some ''\"admin\"'')))"
proof -
  let ?a = "example_request ''http:'' ''/admin/settings'' (Some ''{\"role\":\"Admin\"}'')"
  let ?u = "example_request ''http:'' ''/users'' (Some ''{\"role\":\"staff\"}'')"
  let ?e = "example_request ''http:'' ''/admin'' (Some ''{}'')"
  let ?n = "example_request ''http:'' ''/admin'' (Some ''{\"role\":null}'')"
  let ?s = "example_request ''http:'' ''/admin'' (Some ''\"admin\"'')"
  have a1: "classify (pathname (nextUrl ?a)) = AdminProtected" by code_simp
  have a2: "NODE_ENV dev_runtime \<noteq> Some (str ''production'')
              \<or> js_includes (protocol (nextUrl ?a)) (str ''https'')" by code_simp
  have a3: "cookies ?a (str ''user'') = Some (str ''{\"role\":\"Admin\"}'')" by code_simp
  have a4: "JSON_parse (str ''{\"role\":\"Admin\"}'') = Inr (JObject [(str ''role'', JString (str ''Admin''))])"
    by code_simp
  have a5: "ToBoolean (JObject [(str ''role'', JString (str ''Admin''))])" by simp
  have a6: "role_of (JObject [(str ''role'', JString (str ''Admin''))]) = Some (JString (str ''Admin''))"
    by code_simp
  have a7: "sublist (str ''admin'') (toLowerCase dev_runtime (str ''Admin''))" by code_simp
  have u1: "classify (pathname (nextUrl ?u)) = AdminProtected" by code_simp
  have u2: "NODE_ENV dev_runtime \<noteq> Some (str ''production'')
              \<or> js_includes (protocol (nextUrl ?u)) (str ''https'')" by code_simp
  have u3: "cookies ?u (str ''user'') = Some (str ''{\"role\":\"staff\"}'')" by code_simp
  have u4: "JSON_parse (str ''{\"role\":\"staff\"}'') = Inr (JObject [(str ''role'', JString (str ''staff''))])"
    by code_simp
  have u5: "ToBoolean (JObject [(str ''role'', JString (str ''staff''))])" by simp
  have u6: "role_of (JObject [(str ''role'', JString (str ''staff''))]) = Some (JString (str ''staff''))"
    by code_simp
  have u7: "\<not> (sublist (str ''system admin'') (toLowerCase dev_runtime (str ''staff''))
                \<or> sublist (str ''administrator'') (toLowerCase dev_runtime (str ''staff''))
                \<or> sublist (str ''admin'') (toLowerCase dev_runtime (str ''staff'')))" by code_simp
  have e1: "classify (pathname (nextUrl ?e)) = AdminProtected" by code_simp
  have e2: "NODE_ENV dev_runtime \<noteq> Some (str ''production'')
              \<or> js_includes (protocol (nextUrl ?e)) (str ''https'')" by code_simp
  have e3: "cookies ?e (str ''user'') = Some (str ''{}'')" by code_simp
  have e4: "JSON_parse (str ''{}'') = Inr (JObject [])" by code_simp
  have e5: "ToBoolean (JObject [])" by simp
  have e6: "role_of (JObject []) = None" by simp
  have n1: "classify (pathname (nextUrl ?n)) = AdminProtected" by code_simp
  have n2: "NODE_ENV dev_runtime \<noteq> Some (str ''production'')
              \<or> js_includes (protocol (nextUrl ?n)) (str ''https'')" by code_simp
  have n3: "cookies ?n (str ''user'') = Some (str ''{\"role\":null}'')" by code_simp
  have n4: "JSON_parse (str ''{\"role\":null}'') = Inr (JObject [(str ''role'', JNull)])" by code_simp
  have n5: "ToBoolean (JObject [(str ''role'', JNull)])" by simp
  have n6: "role_of (JObject [(str ''role'', JNull)]) = Some JNull" by code_simp
  have s1: "classify (pathname (nextUrl ?s)) = AdminProtected" by code_simp
  have s2: "NODE_ENV dev_runtime \<noteq> Some (str ''production'')
              \<or> js_includes (protocol (nextUrl ?s)) (str ''https'')" by code_simp
  have s3: "cookies ?s (str ''user'') = Some (str ''\"admin\"'')" by code_simp
  have s4: "JSON_parse (str ''\"admin\"'') = Inr (JString (str ''admin''))" by code_simp
  have s5: "ToBoolean (JString (str ''admin''))" by (simp add: str_def)
  have s6: "role_of (JString (str ''admin'')) = None" by simp
  have d: "redirect (RedirectDefault ?u)
     = Some (UrlObject \<lparr>protocol = str ''http:'', host = str ''example.com'',
                         pathname = str ''/dashboard'', search = []\<rparr>)"
    by (simp add: RedirectDefault_def example_request_def)
  have c: "classify (str ''/admin/settings'') = AdminProtected
             \<and> classify (str ''/users'') = AdminProtected
             \<and> contains_ignoring_case (str ''Admin'') (str ''admin'')"
    by code_simp
  from admin_gate [OF a1 a2 a3 a4 a5, of "str ''Admin''"] a6 a7
  have A: "result (middleware dev_runtime ?a) = Inr AllowWithHeaders"
    by blast
  from admin_gate [OF u1 u2 u3 u4 u5, of "str ''staff''"] u6 u7
  have U: "result (middleware dev_runtime ?u) = Inr (RedirectDefault ?u)"
    by blast
  have e7: "role_of (JObject []) = None \<or> role_of (JObject []) = Some JNull
               \<or> role_of (JObject []) = Some (JString [])"
    using e6 by blast
  have e8: "role_of (JObject []) \<noteq> Some (JString [])"
    using e6 by simp
  from admin_gate [OF e1 e2 e3 e4 e5 e7] e8
  have E: "result (middleware dev_runtime ?e) = Inr (RedirectDefault ?e)"
    by blast
  have n7: "role_of (JObject [(str ''role'', JNull)]) = None \<or> role_of (JObject [(str ''role'', JNull)]) = Some JNull
               \<or> role_of (JObject [(str ''role'', JNull)]) = Some (JString [])"
    using n6 by blast
  have n8: "role_of (JObject [(str ''role'', JNull)]) \<noteq> Some (JString [])"
    using n6 by simp
  from admin_gate [OF n1 n2 n3 n4 n5 n7] n8
  have N: "result (middleware dev_runtime ?n) = Inr (RedirectDefault ?n)"
    by blast
  have s7: "role_of (JString (str ''admin'')) = None \<or> role_of (JString (str ''admin'')) = Some JNull
               \<or> role_of (JString (str ''admin'')) = Some (JString [])"
    using s6 by blast
  have s8: "role_of (JString (str ''admin'')) \<noteq> Some (JString [])"
    using s6 by simp
  from admin_gate [OF s1 s2 s3 s4 s5 s7] s8
  have S: "result (middleware dev_runtime ?s) = Inr (RedirectDefault ?s)"
    by blast
  from A U E N S d c a4 e4 n4 s4 show ?thesis
    by blast
qed

section \<open>Security headers\<close>

text \<open>
  Claim C3 as stated fails: the pass-through response carries four security headers,
  not five.
\<close>

theorem security_headers_counterexample:
  "result (middleware dev_runtime (example_request ''http:'' ''/dashboard'' (Some ''{\"role\":\"staff\"}'')))
     = Inr AllowWithHeaders
   \<and> map fst (headers AllowWithHeaders)
     = [str ''X-Frame-Options'', str ''X-Content-Type-Options'', str ''Referrer-Policy'',
        str ''X-XSS-Protection'']
   \<and> length (headers AllowWithHeaders) \<noteq> 5"
  by code_simp

text \<open>
  Claim C3, amended. A response of the middleware that is a pass-through for a path that
  is not public, which is the response AllowWithHeaders, carries the four security headers
  \<^verbatim>\<open>X-Frame-Options\<close>, \<^verbatim>\<open>X-Content-Type-Options\<close>, \<^verbatim>\<open>Referrer-Policy\<close> and \<^verbatim>\<open>X-XSS-Protection\<close> with
  their fixed values; the pass-through for a public path and every redirect carry none.
\<close>

theorem security_headers:
  assumes "result (middleware rt req) = Inr r"
  shows "headers r =
           (if redirect r = None \<and> \<not> isPublicPath (pathname (nextUrl req))
            then [(str ''X-Frame-Options'', str ''DENY''),
                  (str ''X-Content-Type-Options'', str ''nosniff''),
                  (str ''Referrer-Policy'', str ''strict-origin-when-cross-origin''),
                  (str ''X-XSS-Protection'', str ''1; mode=block'')]
            else [])
         \<and> (r = AllowWithHeaders \<longleftrightarrow> redirect r = None \<and> \<not> isPublicPath (pathname (nextUrl req)))"
  using assms
  by (auto simp: middleware_cases Allow_def AllowWithHeaders_def RedirectHttps_def
        RedirectLogin_def RedirectDefault_def split: if_splits sum.splits)

theorem security_headers_witness:
  "result (middleware dev_runtime (example_request ''http:'' ''/dashboard'' (Some ''{\"role\":\"staff\"}'')))
     = Inr AllowWithHeaders
   \<and> headers AllowWithHeaders
     = [(str ''X-Frame-Options'', str ''DENY''),
        (str ''X-Content-Type-Options'', str ''nosniff''),
        (str ''Referrer-Policy'', str ''strict-origin-when-cross-origin''),
        (str ''X-XSS-Protection'', str ''1; mode=block'')]"
proof -
  let ?req = "example_request ''http:'' ''/dashboard'' (Some ''{\"role\":\"staff\"}'')"
  have h: "result (middleware dev_runtime ?req) = Inr AllowWithHeaders"
    by code_simp
  have n: "redirect AllowWithHeaders = None \<and> \<not> isPublicPath (pathname (nextUrl ?req))"
    by code_simp
  from security_headers [OF h] n h show ?thesis
    by simp
qed

section \<open>HTTPS enforcement\<close>

text \<open>
  Claim C4 as stated fails: a public path is let through before the protocol is looked
  at, also in production mode over plain HTTP.
\<close>

theorem https_redirect_counterexample:
  "NODE_ENV production_runtime = Some (str ''production'')
   \<and> protocol (nextUrl (example_request ''http:'' ''/login'' None)) = str ''http:''
   \<and> result (middleware production_runtime (example_request ''http:'' ''/login'' None)) = Inr Allow
   \<and> Allow \<noteq> RedirectHttps (example_request ''http:'' ''/login'' None)"
  by code_simp

text \<open>
  Claim C4, amended. In production mode, a request over plain HTTP to a path that is not
  public is redirected to \<^verbatim>\<open>https://\<close> followed by its host, path and query, whatever
  cookies it carries: the credential is not read, and no line is logged.
\<close>

theorem https_redirect:
  assumes "NODE_ENV rt = Some (str ''production'')"
    and "protocol (nextUrl req) = str ''http:''"
    and "\<not> isPublicPath (pathname (nextUrl req))"
  shows "middleware rt (req\<lparr>cookies := c\<rparr>) = \<lparr>logged = [], result = Inr (RedirectHttps req)\<rparr>
         \<and> redirect (RedirectHttps req)
            = Some (Href (str ''https://'' @ host (nextUrl req) @ pathname (nextUrl req)
                            @ search (nextUrl req)))"
proof -
  have "\<not> js_includes (str ''http:'') (str ''https'')"
    by code_simp
  with assms show ?thesis
    by (simp add: middleware_cases RedirectHttps_def)
qed

theorem https_redirect_witness:
  "middleware production_runtime (example_request ''http:'' ''/admin'' (Some ''{\"role\":1}''))
     = \<lparr>logged = [],
        result = Inr \<lparr>redirect = Some (Href (str ''https://example.com/admin'')), headers = []\<rparr>\<rparr>"
proof -
  let ?req = "example_request ''http:'' ''/admin'' None"
  have h1: "NODE_ENV production_runtime = Some (str ''production'')"
    by (simp add: production_runtime_def)
  have h2: "protocol (nextUrl ?req) = str ''http:''"
    by (simp add: example_request_def)
  have h3: "\<not> isPublicPath (pathname (nextUrl ?req))"
    by code_simp
  have r: "?req\<lparr>cookies := [str ''user'' \<mapsto> str ''{\"role\":1}'']\<rparr>
             = example_request ''http:'' ''/admin'' (Some ''{\"role\":1}'')"
    by (simp add: example_request_def)
  have t: "RedirectHttps ?req
             = \<lparr>redirect = Some (Href (str ''https://example.com/admin'')), headers = []\<rparr>"
    by (simp add: RedirectHttps_def example_request_def str_def)
  from https_redirect [OF h1 h2 h3, of "[str ''user'' \<mapsto> str ''{\"role\":1}'']"]
  show ?thesis
    by (simp add: r t)
qed

section \<open>The login redirect\<close>

text \<open>
  Claim C5 as stated fails: in production mode over plain HTTP a request without the
  cookie is redirected to HTTPS, not to the login page.
\<close>

theorem login_redirect_counterexample:
  "\<not> isPublicPath (str ''/users/42'')
   \<and> cookies (example_request ''http:'' ''/users/42'' None) (str ''user'') = None
   \<and> result (middleware production_runtime (example_request ''http:'' ''/users/42'' None))
       = Inr (RedirectHttps (example_request ''http:'' ''/users/42'' None))
   \<and> RedirectHttps (example_request ''http:'' ''/users/42'' None)
       \<noteq> RedirectLogin (example_request ''http:'' ''/users/42'' None)"
  by code_simp

text \<open>
  Claim C5, amended. A request without the \<open>user\<close> cookie to a path that is not public,
  which the HTTPS redirect does not catch, is redirected to \<^verbatim>\<open>/login\<close> on the same protocol
  and host, with the query that serializes the one parameter \<open>redirect\<close>, set to the
  request's path. For the path \<^verbatim>\<open>/users/42\<close> that query is \<^verbatim>\<open>?redirect=%2Fusers%2F42\<close>.
\<close>

theorem login_redirect:
  assumes "\<not> isPublicPath (pathname (nextUrl req))"
    and "cookies req (str ''user'') = None"
    and "NODE_ENV rt \<noteq> Some (str ''production'') \<or> js_includes (protocol (nextUrl req)) (str ''https'')"
  shows "result (middleware rt req) = Inr (RedirectLogin req)
         \<and> redirect (RedirectLogin req)
            = Some (UrlObject
                \<lparr>protocol = protocol (nextUrl req), host = host (nextUrl req),
                 pathname = str ''/login'',
                 search = str ''?'' @ urlencoded_serialize [(str ''redirect'', pathname (nextUrl req))]\<rparr>)
         \<and> str ''?'' @ urlencoded_serialize [(str ''redirect'', str ''/users/42'')]
            = str ''?redirect=%2Fusers%2F42''"
proof -
  from assms(2) have "getUserFromRequest req = JNull"
    by (simp add: getUserFromRequest_def)
  with assms(1,3) have a: "result (middleware rt req) = Inr (RedirectLogin req)"
    by (auto simp: middleware_cases)
  note q = login_query_serialized [of "pathname (nextUrl req)"]
  have b: "str ''?'' @ urlencoded_serialize [(str ''redirect'', str ''/users/42'')]
            = str ''?redirect=%2Fusers%2F42''"
    by code_simp
  have c: "redirect (RedirectLogin req)
            = Some (UrlObject
                \<lparr>protocol = protocol (nextUrl req), host = host (nextUrl req),
                 pathname = str ''/login'',
                 search = str ''?'' @ urlencoded_serialize [(str ''redirect'', pathname (nextUrl req))]\<rparr>)"
    unfolding q by (simp add: RedirectLogin_def)
  from a b c show ?thesis
    by blast
qed

theorem login_redirect_witness:
  "result (middleware dev_runtime (example_request ''http:'' ''/users/42'' None))
     = Inr \<lparr>redirect = Some (UrlObject
                \<lparr>protocol = str ''http:'', host = str ''example.com'',
                 pathname = str ''/login'', search = str ''?redirect=%2Fusers%2F42''\<rparr>),
            headers = []\<rparr>"
proof -
  let ?req = "example_request ''http:'' ''/users/42'' None"
  have h1: "\<not> isPublicPath (pathname (nextUrl ?req))"
    by code_simp
  have h2: "cookies ?req (str ''user'') = None"
    by (simp add: example_request_def)
  have h3: "NODE_ENV dev_runtime \<noteq> Some (str ''production'')
              \<or> js_includes (protocol (nextUrl ?req)) (str ''https'')"
    by code_simp
  have t: "RedirectLogin ?req
     = \<lparr>redirect = Some (UrlObject
                \<lparr>protocol = str ''http:'', host = str ''example.com'',
                 pathname = str ''/login'', search = str ''?redirect=%2Fusers%2F42''\<rparr>),
            headers = []\<rparr>"
    by code_simp
  from login_redirect [OF h1 h2 h3] show ?thesis
    by (simp add: t)
qed


section \<open>Credentials that do not parse, and credentials that parse to a falsy value\<close>

text \<open>
  Claim C7. When the value of the \<open>user\<close> cookie is not JSON, the middleware does what it
  does for the same request without that cookie, the logged line included, and it returns
  a response: the SyntaxError goes no further.
\<close>

theorem malformed_credential:
  assumes "cookies req (str ''user'') = Some v"
    and "JSON_parse v = Inl e"
  shows "middleware rt req = middleware rt (req\<lparr>cookies := (cookies req)(str ''user'' := None)\<rparr>)
         \<and> (\<exists>r. result (middleware rt req) = Inr r)"
proof -
  from assms have u: "\<not> ToBoolean (getUserFromRequest req)"
    by (simp add: getUserFromRequest_def)
  then have "middleware rt (req\<lparr>cookies := (cookies req)(str ''user'' := None)\<rparr>) = middleware rt req"
    by (rule middleware_drop_cookie)
  moreover have "\<exists>r. result (middleware rt req) = Inr r"
    by (simp add: middleware_no_identity [OF u])
  ultimately show ?thesis
    by simp
qed

theorem malformed_credential_witness:
  "JSON_parse (str ''{role:admin}'') = Inl SyntaxError
   \<and> middleware dev_runtime (example_request ''http:'' ''/admin'' (Some ''{role:admin}''))
     = middleware dev_runtime (example_request ''http:'' ''/admin'' None)
   \<and> result (middleware dev_runtime (example_request ''http:'' ''/admin'' None))
     = Inr (RedirectLogin (example_request ''http:'' ''/admin'' None))"
proof -
  let ?req = "example_request ''http:'' ''/admin'' (Some ''{role:admin}'')"
  have h1: "cookies ?req (str ''user'') = Some (str ''{role:admin}'')"
    by (simp add: example_request_def)
  have h2: "JSON_parse (str ''{role:admin}'') = Inl SyntaxError"
    by code_simp
  have r: "?req\<lparr>cookies := (cookies ?req)(str ''user'' := None)\<rparr>
             = example_request ''http:'' ''/admin'' None"
    by (simp add: example_request_def)
  have l: "result (middleware dev_runtime (example_request ''http:'' ''/admin'' None))
     = Inr (RedirectLogin (example_request ''http:'' ''/admin'' None))"
    by code_simp
  from malformed_credential [OF h1 h2, of dev_runtime] h2 l show ?thesis
    by (simp add: r)
qed

text \<open>
  Claim C8 as stated fails: in production mode over plain HTTP the request with the
  cookie \<^verbatim>\<open>null\<close> is redirected to HTTPS, not to the login page.
\<close>

theorem falsy_credential_counterexample:
  "JSON_parse (str ''null'') = Inr JNull
   \<and> \<not> isPublicPath (str ''/dashboard'')
   \<and> result (middleware production_runtime (example_request ''http:'' ''/dashboard'' (Some ''null'')))
       = Inr (RedirectHttps (example_request ''http:'' ''/dashboard'' (Some ''null'')))
   \<and> RedirectHttps (example_request ''http:'' ''/dashboard'' (Some ''null''))
       \<noteq> RedirectLogin (example_request ''http:'' ''/dashboard'' (Some ''null''))"
  by code_simp

text \<open>
  Claim C8, amended. When the value of the \<open>user\<close> cookie parses to a falsy value, as
  \<^verbatim>\<open>null\<close>, \<^verbatim>\<open>false\<close>, \<^verbatim>\<open>0\<close> and \<^verbatim>\<open>""\<close> do, the middleware does what it does for the same
  request without that cookie; on a path that is not public, outside the HTTPS redirect,
  that is the redirect to the login page.
\<close>

theorem falsy_credential:
  assumes "cookies req (str ''user'') = Some v"
    and "JSON_parse v = Inr j"
    and "\<not> ToBoolean j"
  shows "middleware rt req = middleware rt (req\<lparr>cookies := (cookies req)(str ''user'' := None)\<rparr>)
         \<and> (\<not> isPublicPath (pathname (nextUrl req))
              \<and> (NODE_ENV rt \<noteq> Some (str ''production'')
                   \<or> js_includes (protocol (nextUrl req)) (str ''https''))
              \<longrightarrow> result (middleware rt req) = Inr (RedirectLogin req))
         \<and> JSON_parse (str ''null'') = Inr JNull
         \<and> JSON_parse (str ''false'') = Inr (JBool False)
         \<and> JSON_parse (str ''0'') = Inr (JNumber False 0 0)
         \<and> JSON_parse (str ''\"\"'') = Inr (JString [])
         \<and> \<not> ToBoolean JNull \<and> \<not> ToBoolean (JBool False)
         \<and> \<not> ToBoolean (JNumber False 0 0) \<and> \<not> ToBoolean (JString [])"
proof -
  from assms have u: "\<not> ToBoolean (getUserFromRequest req)"
    by (simp add: getUserFromRequest_def)
  then have a: "middleware rt (req\<lparr>cookies := (cookies req)(str ''user'' := None)\<rparr>) = middleware rt req"
    by (rule middleware_drop_cookie)
  have b: "\<not> isPublicPath (pathname (nextUrl req))
              \<and> (NODE_ENV rt \<noteq> Some (str ''production'')
                   \<or> js_includes (protocol (nextUrl req)) (str ''https''))
              \<longrightarrow> result (middleware rt req) = Inr (RedirectLogin req)"
    by (auto simp: middleware_no_identity [OF u])
  have p1: "JSON_parse (str ''null'') = Inr JNull" by code_simp
  have p2: "JSON_parse (str ''false'') = Inr (JBool False)" by code_simp
  have p3: "JSON_parse (str ''0'') = Inr (JNumber False 0 0)" by code_simp
  have p4: "JSON_parse (str ''\"\"'') = Inr (JString [])" by code_simp
  have t: "\<not> ToBoolean JNull \<and> \<not> ToBoolean (JBool False)
         \<and> \<not> ToBoolean (JNumber False 0 0) \<and> \<not> ToBoolean (JString [])"
    by (simp add: number_is_zero_def)
  from a b p1 p2 p3 p4 t show ?thesis
    by simp
qed

theorem falsy_credential_witness:
  "JSON_parse (str ''0'') = Inr (JNumber False 0 0)
   \<and> middleware dev_runtime (example_request ''http:'' ''/dashboard'' (Some ''0''))
     = middleware dev_runtime (example_request ''http:'' ''/dashboard'' None)
   \<and> result (middleware dev_runtime (example_request ''http:'' ''/dashboard'' (Some ''0'')))
     = Inr (RedirectLogin (example_request ''http:'' ''/dashboard'' (Some ''0'')))"
proof -
  let ?req = "example_request ''http:'' ''/dashboard'' (Some ''0'')"
  have h1: "cookies ?req (str ''user'') = Some (str ''0'')"
    by (simp add: example_request_def)
  have h2: "JSON_parse (str ''0'') = Inr (JNumber False 0 0)"
    by code_simp
  have h3: "\<not> ToBoolean (JNumber False 0 0)"
    by (simp add: number_is_zero_def)
  have r: "?req\<lparr>cookies := (cookies ?req)(str ''user'' := None)\<rparr>
             = example_request ''http:'' ''/dashboard'' None"
    by (simp add: example_request_def)
  have g: "\<not> isPublicPath (pathname (nextUrl ?req))
              \<and> (NODE_ENV dev_runtime \<noteq> Some (str ''production'')
                   \<or> js_includes (protocol (nextUrl ?req)) (str ''https''))"
    by code_simp
  note f = falsy_credential [OF h1 h2 h3, of dev_runtime]
  from f have a: "middleware dev_runtime ?req
      = middleware dev_runtime (?req\<lparr>cookies := (cookies ?req)(str ''user'' := None)\<rparr>)"
    by (rule conjunct1)
  from f g have b: "result (middleware dev_runtime ?req) = Inr (RedirectLogin ?req)"
    by blast
  from a b h2 show ?thesis
    unfolding r by blast
qed

section \<open>What the decision depends on\<close>

text \<open>
  Claim C9. The response, or the exception, of the middleware is the same for two
  requests with the same URL (protocol, host, path and query) and the same \<open>user\<close>
  cookie, under runtimes of the same mode and the same case tables: the method, the
  client address, the other cookies, the headers and the clock have no part in it.
\<close>

theorem decision_inputs:
  assumes "NODE_ENV rt' = NODE_ENV rt"
    and "unicode_lower rt' = unicode_lower rt"
    and "nextUrl req' = nextUrl req"
    and "cookies req' (str ''user'') = cookies req (str ''user'')"
  shows "result (middleware rt' req') = result (middleware rt req)"
proof -
  have u: "getUserFromRequest req' = getUserFromRequest req"
    by (simp add: getUserFromRequest_def assms(4))
  have t: "RedirectHttps req' = RedirectHttps req" "RedirectLogin req' = RedirectLogin req"
    "RedirectDefault req' = RedirectDefault req"
    by (simp_all add: RedirectHttps_def RedirectLogin_def RedirectDefault_def assms(3))
  show ?thesis
    by (simp add: middleware_cases u t assms(1,3) role_matches_cong [OF assms(2)]
          split: sum.splits)
qed

theorem decision_inputs_witness:
  "result (middleware (dev_runtime\<lparr>now_iso := str ''2031-05-06T07:08:09.000Z''\<rparr>)
       ((example_request ''https:'' ''/users'' (Some ''{\"role\":\"Admin\"}''))
          \<lparr>method := str ''POST'', ip := Some (str ''10.0.0.1''),
           cookies := (cookies (example_request ''https:'' ''/users'' (Some ''{\"role\":\"Admin\"}'')))
                        (str ''session'' \<mapsto> str ''abc''),
           req_headers := [(str ''Accept'', str ''text/html'')]\<rparr>))
     = result (middleware dev_runtime (example_request ''https:'' ''/users'' (Some ''{\"role\":\"Admin\"}'')))
   \<and> result (middleware dev_runtime (example_request ''https:'' ''/users'' (Some ''{\"role\":\"Admin\"}'')))
     = Inr AllowWithHeaders
   \<and> logged (middleware dev_runtime (example_request ''https:'' ''/users'' (Some ''{\"role\":\"Admin\"}'')))
     = [str ''2025-01-01T00:00:00.000Z - GET /users - unknown IP'']
   \<and> logged (middleware (dev_runtime\<lparr>now_iso := str ''2031-05-06T07:08:09.000Z''\<rparr>)
       ((example_request ''https:'' ''/users'' (Some ''{\"role\":\"Admin\"}''))
          \<lparr>method := str ''POST'', ip := Some (str ''10.0.0.1''),
           cookies := (cookies (example_request ''https:'' ''/users'' (Some ''{\"role\":\"Admin\"}'')))
                        (str ''session'' \<mapsto> str ''abc''),
           req_headers := [(str ''Accept'', str ''text/html'')]\<rparr>))
     = [str ''2031-05-06T07:08:09.000Z - POST /users - 10.0.0.1'']"
proof -
  let ?rt' = "dev_runtime\<lparr>now_iso := str ''2031-05-06T07:08:09.000Z''\<rparr>"
  let ?req = "example_request ''https:'' ''/users'' (Some ''{\"role\":\"Admin\"}'')"
  let ?req' = "?req\<lparr>method := str ''POST'', ip := Some (str ''10.0.0.1''),
           cookies := (cookies ?req)(str ''session'' \<mapsto> str ''abc''),
           req_headers := [(str ''Accept'', str ''text/html'')]\<rparr>"
  have h1: "NODE_ENV ?rt' = NODE_ENV dev_runtime"
    by simp
  have h2: "unicode_lower ?rt' = unicode_lower dev_runtime"
    by simp
  have h3: "nextUrl ?req' = nextUrl ?req"
    by simp
  have h4: "cookies ?req' (str ''user'') = cookies ?req (str ''user'')"
    by (simp add: str_def)
  have a: "result (middleware dev_runtime ?req) = Inr AllowWithHeaders"
    by code_simp
  have l: "logged (middleware dev_runtime ?req)
             = [str ''2025-01-01T00:00:00.000Z - GET /users - unknown IP'']"
    by code_simp
  have l': "logged (middleware ?rt' ?req')
             = [str ''2031-05-06T07:08:09.000Z - POST /users - 10.0.0.1'']"
    by code_simp
  from decision_inputs [OF h1 h2 h3 h4] a l l' show ?thesis
    by blast
qed

section \<open>The compliance helpers' failures\<close>

text \<open>
  Claim C10 as stated fails: on a successful status whose body is not JSON, as the empty
  body of a 204, the helpers throw the SyntaxError of \<^verbatim>\<open>res.json()\<close> and return no payload.
\<close>

theorem compliance_errors_counterexample:
  "ok 204
   \<and> fst (fetchDueTasks dev_runtime (str ''h1'') (example_world 204 [])) = Inl SyntaxError
   \<and> fst (acknowledgeNextMonthTask dev_runtime (str ''h1'') (str ''t9'') (example_world 204 []))
       = Inl SyntaxError"
  by code_simp

text \<open>
  Claim C10, amended. Each helper sends one request and no second one. When the upstream
  answers it with a status outside 200 to 299, \<^verbatim>\<open>fetchDueTasks\<close> throws the error
  \<^verbatim>\<open>Failed to fetch due tasks\<close> and \<^verbatim>\<open>acknowledgeNextMonthTask\<close> the error
  \<^verbatim>\<open>Failed to acknowledge task\<close>, and they throw these in no other case; the two messages
  differ. On a status within 200 to 299 the helper gives what \<^verbatim>\<open>res.json()\<close> gives: the JSON
  value of the body, or a SyntaxError when the body is not JSON. When the fetch itself
  rejects, the helper throws that TypeError.
\<close>

theorem compliance_errors:
  assumes "due_request =
             \<lparr>f_url = template (NEXT_PUBLIC_API_URL rt) @ str ''/api/compliance/due-tasks/'' @ hotelId,
              f_method = str ''GET'', f_headers = [], f_body = None\<rparr>"
    and "ack_request =
             \<lparr>f_url = template (NEXT_PUBLIC_API_URL rt) @ str ''/api/compliance/acknowledge-task'',
              f_method = str ''POST'',
              f_headers = [(str ''Content-Type'', str ''application/json'')],
              f_body = Some (str ''{\"hotel_id\":'' @ JSON_quote hotelId @ str '',\"task_id\":''
                               @ JSON_quote taskId @ str ''}'')\<rparr>"
  shows "fst (fetchDueTasks rt hotelId w)
           = (case upstream w (sent w) due_request of
                Rejected \<Rightarrow> Inl TypeError
              | Response status body \<Rightarrow>
                  if 200 \<le> status \<and> status \<le> 299 then JSON_parse body
                  else Inl (Error (str ''Failed to fetch due tasks'')))
         \<and> fst (acknowledgeNextMonthTask rt hotelId taskId w)
           = (case upstream w (sent w) ack_request of
                Rejected \<Rightarrow> Inl TypeError
              | Response status body \<Rightarrow>
                  if 200 \<le> status \<and> status \<le> 299 then JSON_parse body
                  else Inl (Error (str ''Failed to acknowledge task'')))
         \<and> (fst (fetchDueTasks rt hotelId w) = Inl (Error (str ''Failed to fetch due tasks''))
            \<longleftrightarrow> (\<exists>status body. upstream w (sent w) due_request = Response status body
                  \<and> \<not> (200 \<le> status \<and> status \<le> 299)))
         \<and> (fst (acknowledgeNextMonthTask rt hotelId taskId w)
               = Inl (Error (str ''Failed to acknowledge task''))
            \<longleftrightarrow> (\<exists>status body. upstream w (sent w) ack_request = Response status body
                  \<and> \<not> (200 \<le> status \<and> status \<le> 299)))
         \<and> str ''Failed to fetch due tasks'' \<noteq> str ''Failed to acknowledge task''
         \<and> sent (snd (fetchDueTasks rt hotelId w)) = sent w @ [due_request]
         \<and> sent (snd (acknowledgeNextMonthTask rt hotelId taskId w)) = sent w @ [ack_request]"
proof -
  have q: "str ''{'' @ JSON_quote (str ''hotel_id'') @ str '':'' @ JSON_quote hotelId @ str '',''
             @ JSON_quote (str ''task_id'') @ str '':'' @ JSON_quote taskId @ str ''}''
           = str ''{\"hotel_id\":'' @ JSON_quote hotelId @ str '',\"task_id\":''
               @ JSON_quote taskId @ str ''}''"
  proof -
    have "JSON_quote (str ''hotel_id'') = str ''\"hotel_id\"''"
      by code_simp
    moreover have "JSON_quote (str ''task_id'') = str ''\"task_id\"''"
      by code_simp
    ultimately show ?thesis
      by (simp add: str_def)
  qed
  have m: "str ''Failed to fetch due tasks'' \<noteq> str ''Failed to acknowledge task''"
    by (simp add: str_def)
  have d: "fetchDueTasks rt hotelId w =
      (case upstream w (sent w) due_request of
         Rejected \<Rightarrow> Inl TypeError
       | Response status body \<Rightarrow>
           if 200 \<le> status \<and> status \<le> 299 then JSON_parse body
           else Inl (Error (str ''Failed to fetch due tasks'')),
       w\<lparr>sent := sent w @ [due_request]\<rparr>)"
    unfolding assms(1)
    by (auto simp: fetchDueTasks_def fetch_def ok_def res_json_def split: fetch_outcome.splits)
  have a: "acknowledgeNextMonthTask rt hotelId taskId w =
      (case upstream w (sent w) ack_request of
         Rejected \<Rightarrow> Inl TypeError
       | Response status body \<Rightarrow>
           if 200 \<le> status \<and> status \<le> 299 then JSON_parse body
           else Inl (Error (str ''Failed to acknowledge task'')),
       w\<lparr>sent := sent w @ [ack_request]\<rparr>)"
    unfolding assms(2) acknowledgeNextMonthTask_def q
    by (auto simp: fetch_def ok_def res_json_def split: fetch_outcome.splits)
  show ?thesis
    unfolding d a using m
    by (cases "upstream w (sent w) due_request"; cases "upstream w (sent w) ack_request")
       (auto simp: JSON_parse_not_Error)
qed

theorem compliance_errors_witness:
  "fst (fetchDueTasks dev_runtime (str ''h1'') (example_world 503 ''busy''))
     = Inl (Error (str ''Failed to fetch due tasks''))
   \<and> fst (acknowledgeNextMonthTask dev_runtime (str ''h1'') (str ''t9'') (example_world 503 ''busy''))
     = Inl (Error (str ''Failed to acknowledge task''))
   \<and> fst (fetchDueTasks dev_runtime (str ''h1'') (example_world 200 ''[{\"id\":7}]''))
     = Inr (JArray [JObject [(str ''id'', JNumber False 7 0)]])
   \<and> sent (snd (acknowledgeNextMonthTask dev_runtime (str ''h1'') (str ''t9'') (example_world 200 ''{}'')))
     = [\<lparr>f_url = str ''http://localhost:8000/api/compliance/acknowledge-task'',
         f_method = str ''POST'',
         f_headers = [(str ''Content-Type'', str ''application/json'')],
         f_body = Some (str ''{\"hotel_id\":\"h1\",\"task_id\":\"t9\"}'')\<rparr>]"
proof -
  let ?due = "\<lparr>f_url = template (NEXT_PUBLIC_API_URL dev_runtime) @ str ''/api/compliance/due-tasks/''
                        @ str ''h1'',
               f_method = str ''GET'', f_headers = [], f_body = None\<rparr>"
  let ?ack = "\<lparr>f_url = template (NEXT_PUBLIC_API_URL dev_runtime)
                        @ str ''/api/compliance/acknowledge-task'',
               f_method = str ''POST'',
               f_headers = [(str ''Content-Type'', str ''application/json'')],
               f_body = Some (str ''{\"hotel_id\":'' @ JSON_quote (str ''h1'') @ str '',\"task_id\":''
                                @ JSON_quote (str ''t9'') @ str ''}'')\<rparr>"
  note busy = compliance_errors [of ?due dev_runtime "str ''h1''" ?ack "str ''t9''"
                 "example_world 503 ''busy''", OF refl refl]
  note fine = compliance_errors [of ?due dev_runtime "str ''h1''" ?ack "str ''t9''"
                 "example_world 200 ''[{\"id\":7}]''", OF refl refl]
  note sends = compliance_errors [of ?due dev_runtime "str ''h1''" ?ack "str ''t9''"
                 "example_world 200 ''{}''", OF refl refl]
  have b1: "upstream (example_world 503 ''busy'') (sent (example_world 503 ''busy'')) ?due
              = Response 503 (str ''busy'') \<and> \<not> (200 \<le> (503::nat) \<and> (503::nat) \<le> 299)"
    by (simp add: example_world_def)
  have b2: "upstream (example_world 503 ''busy'') (sent (example_world 503 ''busy'')) ?ack
              = Response 503 (str ''busy'') \<and> \<not> (200 \<le> (503::nat) \<and> (503::nat) \<le> 299)"
    by (simp add: example_world_def)
  have f1: "upstream (example_world 200 ''[{\"id\":7}]'') (sent (example_world 200 ''[{\"id\":7}]'')) ?due
              = Response 200 (str ''[{\"id\":7}]'') \<and> (200::nat) \<le> 200 \<and> (200::nat) \<le> 299
                \<and> JSON_parse (str ''[{\"id\":7}]'') = Inr (JArray [JObject [(str ''id'', JNumber False 7 0)]])"
  proof -
    have "JSON_parse (str ''[{\"id\":7}]'') = Inr (JArray [JObject [(str ''id'', JNumber False 7 0)]])"
      by code_simp
    then show ?thesis
      by (simp add: example_world_def)
  qed
  have s1: "sent (example_world 200 ''{}'') @ [?ack]
     = [\<lparr>f_url = str ''http://localhost:8000/api/compliance/acknowledge-task'',
         f_method = str ''POST'',
         f_headers = [(str ''Content-Type'', str ''application/json'')],
         f_body = Some (str ''{\"hotel_id\":\"h1\",\"task_id\":\"t9\"}'')\<rparr>]"
    by code_simp
  from busy b1 have r1: "fst (fetchDueTasks dev_runtime (str ''h1'') (example_world 503 ''busy''))
     = Inl (Error (str ''Failed to fetch due tasks''))"
    by blast
  from busy b2 have r2: "fst (acknowledgeNextMonthTask dev_runtime (str ''h1'') (str ''t9'')
        (example_world 503 ''busy'')) = Inl (Error (str ''Failed to acknowledge task''))"
    by blast
  from fine have "fst (fetchDueTasks dev_runtime (str ''h1'') (example_world 200 ''[{\"id\":7}]''))
           = (case upstream (example_world 200 ''[{\"id\":7}]'')
                     (sent (example_world 200 ''[{\"id\":7}]'')) ?due of
                Rejected \<Rightarrow> Inl TypeError
              | Response status body \<Rightarrow>
                  if 200 \<le> status \<and> status \<le> 299 then JSON_parse body
                  else Inl (Error (str ''Failed to fetch due tasks'')))"
    by (rule conjunct1)
  with f1 have r3: "fst (fetchDueTasks dev_runtime (str ''h1'') (example_world 200 ''[{\"id\":7}]''))
     = Inr (JArray [JObject [(str ''id'', JNumber False 7 0)]])"
    by simp
  from sends s1 have r4: "sent (snd (acknowledgeNextMonthTask dev_runtime (str ''h1'') (str ''t9'')
        (example_world 200 ''{}'')))
     = [\<lparr>f_url = str ''http://localhost:8000/api/compliance/acknowledge-task'',
         f_method = str ''POST'',
         f_headers = [(str ''Content-Type'', str ''application/json'')],
         f_body = Some (str ''{\"hotel_id\":\"h1\",\"task_id\":\"t9\"}'')\<rparr>]"
    by simp
  from r1 r2 r3 r4 show ?thesis
    by blast
qed

end
